theory Spec2Isabelle
  imports Main "HOL-Library.Sublist" "HOL-Library.AList"
begin

section \<open>The stack-frame analysis of fidget (sym\_tracking.py)\<close>

text \<open>
  A shallow embedding of \<^verbatim>\<open>src/fidget/sym_tracking.py\<close>: the expression nodes
  (\<^verbatim>\<open>SmartExpression\<close>, \<^verbatim>\<open>ConstExpression\<close>), the per-block state
  (\<^verbatim>\<open>BlockState\<close>, \<^verbatim>\<open>TempStore\<close>), the block walker
  (\<^verbatim>\<open>StructureAnalysis.analyze_stack\<close>) and the driver
  (\<^verbatim>\<open>StructureAnalysis.__init__\<close>, \<^verbatim>\<open>get_real_functions\<close>).
  Mutation is explicit state passing, an exception is a value of type \<open>error\<close>, and
  everything the module imports from elsewhere (the lifter, the CFG, the loader, the
  symbolic engine's operation table, \<^verbatim>\<open>BinaryData\<close>) is a field of the record
  \<open>env\<close>.
\<close>

subsection \<open>Exceptions\<close>

datatype error =
    FidgetError
  | FidgetUnsupportedError
  | FidgetAnalysisFailure
  | ValueError
  | KeyError
  | IndexError
  | TypeError
  | AttributeError
  | SimOperationError
  | AngrMemoryError

subsection \<open>IR types\<close>

text \<open>
  A VEX type name is \<^verbatim>\<open>'Ity_'\<close>, one letter and a width: \<^verbatim>\<open>'Ity_I32'\<close>,
  \<^verbatim>\<open>'Ity_F64'\<close>, \<^verbatim>\<open>'Ity_V128'\<close>. The source tests \<^verbatim>\<open>'F' in ty\<close>, compares
  \<^verbatim>\<open>ty.split('_')[1]\<close> and builds \<^verbatim>\<open>'Ity_I%d' % bits\<close>; the letter and the width
  carry all of that.
\<close>

datatype tykind = KI | KF | KD | KV

datatype irtype = Ity tykind nat

fun has_F :: "irtype \<Rightarrow> bool" where
  "has_F (Ity k n) = (k = KF)"

text \<open>
  Modelled from the spec: \<^verbatim>\<open>vexutils.extract_int\<close> is not in the source file; it
  reads the integer width out of a type name.
\<close>

fun extract_int :: "irtype \<Rightarrow> nat" where
  "extract_int (Ity k n) = n"

definition Ity_I :: "nat \<Rightarrow> irtype" where
  "Ity_I n = Ity KI n"

subsection \<open>Values of the symbolic engine\<close>

text \<open>
  The two values of a node are terms of the symbolic engine (claripy). The model keeps
  the constructors the source itself applies (\<^verbatim>\<open>BVV\<close>, \<^verbatim>\<open>BV\<close>, \<^verbatim>\<open>FPV\<close>,
  \<^verbatim>\<open>FloatingPoint\<close>, \<^verbatim>\<open>Concat\<close>, slicing, \<^verbatim>\<open>zero_extend\<close>,
  \<^verbatim>\<open>sign_extend\<close>) and one constructor \<open>Apply\<close> for whatever an entry of the
  operation table builds. A symbol is named \<^verbatim>\<open>'%x_%d' % (addr, path[1])\<close>; the
  model keeps the pair (the engine adds a number of its own to each name, which no
  property below looks at). The payload of a float literal is opaque.
\<close>

datatype bv =
    BVV int nat
  | BVS "nat \<times> nat" nat
  | FPV int nat
  | FPS "nat \<times> nat" nat
  | Concat bv bv
  | Extract int int bv
  | ZeroExt nat bv
  | SignExt nat bv
  | Apply string "bv list" nat

fun bv_size :: "bv \<Rightarrow> nat" where
  "bv_size (BVV v n) = n"
| "bv_size (BVS k n) = n"
| "bv_size (FPV v n) = n"
| "bv_size (FPS k n) = n"
| "bv_size (Concat a b) = bv_size a + bv_size b"
| "bv_size (Extract hi lo v) = nat (hi - lo + 1)"
| "bv_size (ZeroExt n v) = n + bv_size v"
| "bv_size (SignExt n v) = n + bv_size v"
| "bv_size (Apply opn args n) = n"

text \<open>
  The unsigned value of a term, under an interpretation \<open>\<iota>\<close> of the operations and a
  valuation \<open>\<sigma>\<close> of the symbols.
\<close>

fun bv_eval :: "(string \<Rightarrow> int list \<Rightarrow> int) \<Rightarrow> (nat \<times> nat \<Rightarrow> int) \<Rightarrow> bv \<Rightarrow> int" where
  "bv_eval \<iota> \<sigma> (BVV v n) = v mod 2 ^ n"
| "bv_eval \<iota> \<sigma> (BVS k n) = \<sigma> k mod 2 ^ n"
| "bv_eval \<iota> \<sigma> (FPV v n) = v mod 2 ^ n"
| "bv_eval \<iota> \<sigma> (FPS k n) = \<sigma> k mod 2 ^ n"
| "bv_eval \<iota> \<sigma> (Concat a b) = bv_eval \<iota> \<sigma> a * 2 ^ bv_size b + bv_eval \<iota> \<sigma> b"
| "bv_eval \<iota> \<sigma> (Extract hi lo v) = (bv_eval \<iota> \<sigma> v div 2 ^ nat lo) mod 2 ^ nat (hi - lo + 1)"
| "bv_eval \<iota> \<sigma> (ZeroExt n v) = bv_eval \<iota> \<sigma> v"
| "bv_eval \<iota> \<sigma> (SignExt n v) =
     (let s = bv_size v; x = bv_eval \<iota> \<sigma> v
      in if 0 < s \<and> 2 ^ (s - 1) \<le> x then x + (2 ^ n - 1) * 2 ^ s else x)"
| "bv_eval \<iota> \<sigma> (Apply opn args n) = \<iota> opn (map (bv_eval \<iota> \<sigma>) args) mod 2 ^ n"

text \<open>
  Modelled from the spec: \<^verbatim>\<open>vexutils.make_default_value\<close> and
  \<^verbatim>\<open>vexutils.ZExtTo\<close> are not in the source file. The first gives the
  architecture-default (zero) value of a type, the second zero-extends a value up to a
  width.
\<close>

definition make_default_value :: "irtype \<Rightarrow> bv" where
  "make_default_value ty = (if has_F ty then FPV 0 (extract_int ty) else BVV 0 (extract_int ty))"

definition ZExtTo :: "nat \<Rightarrow> bv \<Rightarrow> bv" where
  "ZExtTo n v = (if bv_size v < n then ZeroExt (n - bv_size v) v else v)"

subsection \<open>Expression nodes\<close>

text \<open>
  \<^verbatim>\<open>taints\<close> is a \<^verbatim>\<open>defaultdict(bool)\<close> with the keys \<^verbatim>\<open>'pointer'\<close> (a region
  name, or \<^verbatim>\<open>False\<close>), \<^verbatim>\<open>'concrete'\<close> and \<^verbatim>\<open>'it'\<close>. \<open>None\<close> stands for
  \<^verbatim>\<open>False\<close> under \<^verbatim>\<open>'pointer'\<close>; Python's truth value of a region name is
  \<open>truthy\<close> (the empty string is false).
\<close>

record taint_map =
  pointer :: "string option"
  concrete :: bool
  it :: bool

definition no_taints :: taint_map where
  "no_taints = \<lparr>pointer = None, concrete = False, it = False\<rparr>"

definition truthy :: "string option \<Rightarrow> bool" where
  "truthy t = (case t of None \<Rightarrow> False | Some s \<Rightarrow> s \<noteq> [])"

datatype pathelem = PStr string | PInt nat

text \<open>
  One node. \<open>is_const\<close> tells a \<^verbatim>\<open>ConstExpression\<close> from a
  \<^verbatim>\<open>SmartExpression\<close> (or its subclass \<^verbatim>\<open>CustomExpression\<close>): the two classes
  have different \<^verbatim>\<open>truncate\<close> methods. The attributes \<^verbatim>\<open>blockstate\<close>,
  \<^verbatim>\<open>project\<close> and \<^verbatim>\<open>vexpression\<close> are references to the surroundings and
  are not kept. \<^verbatim>\<open>_bindata\<close> is a memo cell for \<^verbatim>\<open>make_bindata_internal\<close>; the
  model recomputes instead (see \<open>make_bindata_internal\<close>).
\<close>

datatype expr = Expr
  (is_const: bool)
  (esize: nat)
  (etype: irtype)
  (cleanval: bv)
  (dirtyval: bv)
  (deps: "expr list")
  (taints: taint_map)
  (rootval: bool)
  (eaddr: "nat option")
  (epath: "pathelem list")

definition set_taints :: "expr \<Rightarrow> taint_map \<Rightarrow> expr" where
  "set_taints e t = Expr (is_const e) (esize e) (etype e) (cleanval e) (dirtyval e) (deps e)
     t (rootval e) (eaddr e) (epath e)"

definition set_vals :: "expr \<Rightarrow> bv \<Rightarrow> bv \<Rightarrow> expr" where
  "set_vals e c d = Expr (is_const e) (esize e) (etype e) c d (deps e)
     (taints e) (rootval e) (eaddr e) (epath e)"

definition set_deps :: "expr \<Rightarrow> expr list \<Rightarrow> expr" where
  "set_deps e ds = Expr (is_const e) (esize e) (etype e) (cleanval e) (dirtyval e) ds
     (taints e) (rootval e) (eaddr e) (epath e)"

definition set_type :: "expr \<Rightarrow> irtype \<Rightarrow> expr" where
  "set_type e ty = Expr (is_const e) (esize e) ty (cleanval e) (dirtyval e) (deps e)
     (taints e) (rootval e) (eaddr e) (epath e)"

definition set_rootval :: "expr \<Rightarrow> bool \<Rightarrow> expr" where
  "set_rootval e r = Expr (is_const e) (esize e) (etype e) (cleanval e) (dirtyval e) (deps e)
     (taints e) r (eaddr e) (epath e)"

text \<open>\<^verbatim>\<open>ConstExpression.__init__(val, ty, concrete)\<close> and \<^verbatim>\<open>ConstExpression.default\<close>.\<close>

definition ConstExpression :: "bv \<Rightarrow> irtype \<Rightarrow> bool \<Rightarrow> expr" where
  "ConstExpression val ty conc =
     Expr True (bv_size val) ty val val []
       \<lparr>pointer = None, concrete = conc, it = False\<rparr> False None []"

definition ConstExpression_default :: "irtype \<Rightarrow> expr" where
  "ConstExpression_default ty = ConstExpression (make_default_value ty) ty False"

text \<open>
  The first lines of \<^verbatim>\<open>SmartExpression.__init__\<close>: the attributes of a node before
  the branch on the expression's tag. \<^verbatim>\<open>result_size\<close> (for a constant,
  \<^verbatim>\<open>size\<close>) is the width of \<^verbatim>\<open>result_type\<close> (\<^verbatim>\<open>type\<close>).
\<close>

definition new_smart :: "irtype \<Rightarrow> nat option \<Rightarrow> pathelem list \<Rightarrow> expr" where
  "new_smart ty a p =
     Expr False (extract_int ty) ty (make_default_value ty) (make_default_value ty) []
       no_taints False a p"

text \<open>\<^verbatim>\<open>copy_to_self\<close>: every attribute but the class, the size and the type.\<close>

definition copy_to_self :: "expr \<Rightarrow> expr \<Rightarrow> expr" where
  "copy_to_self self other =
     Expr (is_const self) (esize self) (etype self) (cleanval other) (dirtyval other)
       (deps other) (taints other) (rootval other) (eaddr other) (epath other)"

text \<open>
  \<^verbatim>\<open>shield_constants(expr_list, whitelist)\<close>, with the index of the first element
  as third argument (\<^verbatim>\<open>enumerate\<close>).
\<close>

fun shield_constants :: "expr list \<Rightarrow> nat list option \<Rightarrow> nat \<Rightarrow> expr list" where
  "shield_constants [] wl i = []"
| "shield_constants (e # es) wl i =
     (if (case wl of None \<Rightarrow> False | Some w \<Rightarrow> i \<notin> set w) then e
      else if rootval e then ConstExpression (cleanval e) (etype e) (concrete (taints e))
      else e) # shield_constants es wl (Suc i)"

text \<open>
  \<^verbatim>\<open>truncate(ty)\<close>, of \<^verbatim>\<open>SmartExpression\<close> and of \<^verbatim>\<open>ConstExpression\<close>: the
  two differ in the node they build (\<open>truncate\<close> itself is a name of the record
  package). The slice \<^verbatim>\<open>v[size_bits-1:0]\<close> is
  \<open>Extract (size_bits - 1) 0 v\<close>.
\<close>

definition truncate_expr :: "expr \<Rightarrow> irtype \<Rightarrow> error + expr" where
  "truncate_expr self ty =
     (if ty = etype self then Inr self
      else if has_F (etype self) then Inl ValueError
      else let size_bits = extract_int ty in
        if size_bits > esize self then Inr self
        else if is_const self then
          Inr (ConstExpression (Extract (int size_bits - 1) 0 (cleanval self)) ty
                 (concrete (taints self)))
        else
          Inr (Expr False size_bits ty
                 (Extract (int size_bits - 1) 0 (cleanval self))
                 (Extract (int size_bits - 1) 0 (dirtyval self))
                 [self]
                 \<lparr>pointer = None, concrete = concrete (taints self), it = False\<rparr>
                 False (eaddr self) (epath self)))"

text \<open>
  \<^verbatim>\<open>SmartExpression.overwrite(other)\<close>. Only \<^verbatim>\<open>SmartExpression\<close> has the method;
  \<^verbatim>\<open>BlockState.assign\<close> calls it on the node it has just built.
\<close>

definition overwrite :: "expr \<Rightarrow> expr \<Rightarrow> expr" where
  "overwrite self other =
     (if esize self > esize other then self
      else if esize self = esize other then self
      else Expr False (esize other) (etype other)
             (Concat (Extract (int (esize other) - 1) (int (esize self)) (cleanval other))
                (cleanval self))
             (Concat (Extract (int (esize other) - 1) (int (esize self)) (dirtyval other))
                (dirtyval self))
             [self, other]
             \<lparr>pointer = pointer (taints other),
              concrete = concrete (taints other) \<and> concrete (taints self),
              it = False\<rparr>
             False (eaddr self) (epath self))"

subsection \<open>The IR\<close>

text \<open>
  pyvex expressions, by their \<^verbatim>\<open>tag\<close>, each with its \<^verbatim>\<open>result_type\<close>. \<open>Ico\<close>
  is an \<^verbatim>\<open>IRConst\<close> standing where an expression is expected (the target of an
  \<^verbatim>\<open>Ist_Exit\<close>): its tag starts with \<^verbatim>\<open>'Ico_'\<close>. \<open>Iex_Op\<close> stands for the four
  tags \<^verbatim>\<open>Iex_Unop\<close>, \<^verbatim>\<open>Iex_Binop\<close>, \<^verbatim>\<open>Iex_Triop\<close> and \<^verbatim>\<open>Iex_Qop\<close>, which
  the source handles in one branch; it carries \<^verbatim>\<open>op\<close> and \<^verbatim>\<open>args\<close>.
  \<open>Iex_Other\<close> is any other tag.
\<close>

datatype irconst = IRConst (con_value: int) (con_type: irtype)

datatype vexpr =
    Iex_Get nat irtype
  | Iex_RdTmp nat irtype
  | Iex_Load vexpr irtype
  | Iex_Const irconst
  | Ico irconst
  | Iex_ITE vexpr vexpr vexpr irtype
  | Iex_Op string "vexpr list" irtype
  | Iex_CCall "vexpr list" irtype
  | Iex_GetI irtype
  | Iex_Other string irtype

text \<open>
  Statements, by their \<^verbatim>\<open>tag\<close>. \<open>Ist_IMark addr delta\<close>; \<open>Ist_Exit dst\<close>;
  \<open>Ist_WrTmp tmp data\<close>; \<open>Ist_Store addr data\<close>; \<open>Ist_Put offset data\<close>;
  \<open>Ist_LoadG addr alt guard dst cvt cvt_types[0] cvt_types[1]\<close>;
  \<open>Ist_StoreG addr data guard\<close>; \<open>Ist_PutI data\<close>; \<open>Ist_CAS oldLo oldHi\<close>;
  \<open>Ist_Dirty tmp\<close>; \<open>Ist_Other\<close> is any other tag.
\<close>

datatype stmt =
    Ist_IMark nat nat
  | Ist_NoOp
  | Ist_AbiHint
  | Ist_MBE
  | Ist_Exit irconst
  | Ist_WrTmp nat vexpr
  | Ist_Store vexpr vexpr
  | Ist_Put nat vexpr
  | Ist_LoadG vexpr vexpr vexpr nat string irtype irtype
  | Ist_StoreG vexpr vexpr vexpr
  | Ist_PutI vexpr
  | Ist_CAS nat nat
  | Ist_Dirty nat
  | Ist_Other string

record irsb =
  statements :: "stmt list"
  jumpkind :: string
  tyenv_types :: "irtype list"

subsection \<open>The CFG, the frame and the tags\<close>

record cfgnode =
  node_addr :: nat
  node_context :: nat
  simprocedure_name :: "string option"

record func =
  func_addr :: nat
  func_name :: string
  has_unresolved_jumps :: bool

text \<open>
  What \<^verbatim>\<open>make_bindata\<close> builds: a \<^verbatim>\<open>BinaryDataConglomerate(addr, value, symval,
  flags)\<close> and the pairs given to its \<^verbatim>\<open>add\<close>, in order. A pair holds either a
  \<^verbatim>\<open>BinaryData(project, addr, value, path)\<close> or, when that constructor raises
  \<^verbatim>\<open>ValueNotFoundError\<close>, the bare value.
\<close>

datatype patch = BinaryData "nat option" int "pathelem list" | RawValue int

record conglomerate =
  c_addr :: "nat option"
  c_value :: int
  c_symval :: bv
  c_flags :: nat
  c_dependencies :: "(patch \<times> bv) list"

datatype tagkind = ALLOC | ACCESS

text \<open>
  \<^verbatim>\<open>stack_magic.Struct\<close>, as far as this module uses it: its \<^verbatim>\<open>name\<close> and the
  calls of \<^verbatim>\<open>alloc\<close> and \<^verbatim>\<open>access\<close> it has received, in order.
\<close>

record struct =
  struct_name :: string
  struct_events :: "(tagkind \<times> conglomerate) list"

subsection \<open>The surroundings\<close>

text \<open>
  The project, its architecture, loader, lifter and CFG, the engine's table
  \<^verbatim>\<open>simuvex.operations\<close>, \<^verbatim>\<open>BinaryData\<close>, the names \<^verbatim>\<open>Struct\<close> gives to the
  frames it creates, none of which is in the source file.
  \<^item> \<open>lift_block a\<close> is \<^verbatim>\<open>project.factory.block(a, opt_level=1, max_size=400).vex\<close>
    and \<open>lift_insn a\<close> the same with \<^verbatim>\<open>num_inst=1\<close>; \<open>None\<close> is
    \<^verbatim>\<open>AngrMemoryError\<close>.
  \<^item> \<open>operations opn\<close> is \<^verbatim>\<open>operations[opn].calculate\<close>; \<open>None\<close> is the
    \<^verbatim>\<open>KeyError\<close> of the table.
  \<^item> \<open>op_sem\<close> interprets what the table builds, for \<^verbatim>\<open>.model.value\<close>.
  \<^item> \<open>binary_data_found a v p\<close> is false when \<^verbatim>\<open>BinaryData(project, a, v, path=p)\<close>
    raises \<^verbatim>\<open>ValueNotFoundError\<close>.
  \<^item> \<open>reversed_repr a\<close> is the integer that \<^verbatim>\<open>get_mem\<close> reads out of
    \<^verbatim>\<open>str(reversed(strval))\<close> on a little-endian target: the text of an iterator
    object, which the program does not determine.
  \<^item> \<open>get_successors_and_jumpkind x n\<close> is the CFG's method of that name, called
    with \<^verbatim>\<open>excluding_fakeret=x\<close> (\<open>True\<close> is the default).
  \<^item> \<open>new_struct_name k\<close> is the name of the \<open>k\<close>-th \<^verbatim>\<open>Struct\<close> created.
\<close>

record env =
  arch_name :: string
  arch_bits :: nat
  sp_offset :: nat
  bp_offset :: nat
  ip_offset :: nat
  itstate_offset :: nat
  call_pushes_ret :: bool
  memory_endness :: string
  entry :: nat
  is_hooked :: "nat \<Rightarrow> bool"
  loader_memory :: "int \<Rightarrow> nat option"
  find_segment_containing :: "nat \<Rightarrow> bool"
  sections_map :: "string \<Rightarrow> bool"
  find_section_containing :: "nat \<Rightarrow> string option"
  plt_values :: "nat list"
  lift_block :: "nat \<Rightarrow> irsb option"
  lift_insn :: "nat \<Rightarrow> irsb option"
  operations :: "string \<Rightarrow> (bv list \<Rightarrow> error + bv) option"
  op_sem :: "string \<Rightarrow> int list \<Rightarrow> int"
  binary_data_found :: "nat option \<Rightarrow> int \<Rightarrow> pathelem list \<Rightarrow> bool"
  reversed_repr :: "int \<Rightarrow> int"
  cfg_functions :: "(nat \<times> func) list"
  get_all_nodes :: "nat \<Rightarrow> cfgnode list"
  get_successors_and_jumpkind :: "bool \<Rightarrow> cfgnode \<Rightarrow> (cfgnode \<times> string) list"
  get_any_node :: "nat \<Rightarrow> cfgnode option"
  new_struct_name :: "nat \<Rightarrow> string"

text \<open>\<^verbatim>\<open>v.model.value\<close> and \<^verbatim>\<open>v.model.signed\<close> of a replay value.\<close>

definition model_value :: "env \<Rightarrow> bv \<Rightarrow> int" where
  "model_value env v = bv_eval (op_sem env) (\<lambda>k. 0) v"

definition model_signed :: "env \<Rightarrow> bv \<Rightarrow> int" where
  "model_signed env v =
     (let x = model_value env v; n = bv_size v
      in if 0 < n \<and> 2 ^ (n - 1) \<le> x then x - 2 ^ n else x)"

definition startswith :: "string \<Rightarrow> string \<Rightarrow> bool" where
  "startswith s p = prefix p s"

definition OK_CONTINUE_JUMPS :: "string list" where
  "OK_CONTINUE_JUMPS = [''Ijk_FakeRet'', ''Ijk_Boring'', ''Ijk_FakeRet'', ''Ijk_Sys_int128'',
     ''Ijk_SigTRAP'', ''Ijk_Sys_syscall'']"

text \<open>
  The tuple of the source, entry by entry. Three commas are missing there, and Python
  joins the neighbouring literals: the three long entries are in the table as they are
  in the program.
\<close>

definition ROUNDING_IROPS :: "string list" where
  "ROUNDING_IROPS = [
    ''Iop_AddF64'', ''Iop_SubF64'', ''Iop_MulF64'', ''Iop_DivF64'', ''Iop_AddF32'',
    ''Iop_SubF32'', ''Iop_MulF32'', ''Iop_DivF32'', ''Iop_AddF128'', ''Iop_SubF128'',
    ''Iop_MulF128'', ''Iop_DivF128'', ''Iop_AddF64r32'', ''Iop_SubF64r32'', ''Iop_MulF64r32'',
    ''Iop_DivF64r32'', ''Iop_F64toI32S'', ''Iop_SqrtF64'', ''Iop_SqrtF32'', ''Iop_SqrtF128'',
    ''Iop_F64toI16S'', ''Iop_F64toI32S'', ''Iop_F64toI64S'', ''Iop_F64toI64U'',
    ''Iop_F64toI32U'', ''Iop_I32StoF64'', ''Iop_I64StoF64'', ''Iop_I64UtoF64'',
    ''Iop_I64UtoF32'', ''Iop_I32UtoF32'', ''Iop_I32UtoF64'', ''Iop_F32toI32S'',
    ''Iop_F32toI64S'', ''Iop_F32toI32U'', ''Iop_F32toI64U'', ''Iop_I32StoF32'',
    ''Iop_I64StoF32'', ''Iop_F64toF32Iop_F128toI32S'', ''Iop_F128toI64S'', ''Iop_F128toI32U'',
    ''Iop_F128toI64U'', ''Iop_F128toF64'', ''Iop_F128toF32Iop_AtanF64'', ''Iop_Yl2xF64'',
    ''Iop_Yl2xp1F64'', ''Iop_PRemF64'', ''Iop_PRemC3210F64'', ''Iop_PRem1F64'',
    ''Iop_PRem1C3210F64'', ''Iop_ScaleF64'', ''Iop_SinF64'', ''Iop_CosF64'', ''Iop_TanF64'',
    ''Iop_2xm1F64'', ''Iop_RoundF64toInt'', ''Iop_RoundF32toInt'', ''Iop_MAddF32'',
    ''Iop_MSubF32'', ''Iop_MAddF64'', ''Iop_MSubF64'', ''Iop_MAddF64r32'', ''Iop_MSubF64r32'',
    ''Iop_RoundF64toF32'', ''Iop_RecpExpF64'', ''Iop_RecpExpF64'', ''Iop_RecpExpF32'',
    ''Iop_F64toF16'', ''Iop_F32toF16'', ''Iop_AddD64'', ''Iop_SubD64'', ''Iop_MulD64'',
    ''Iop_DivD64'', ''Iop_AddD128'', ''Iop_SubD128'', ''Iop_MulD128'', ''Iop_DivD128'',
    ''Iop_D64toD32'', ''Iop_D128toD64'', ''Iop_I64StoD64'', ''Iop_I64UtoD64'',
    ''Iop_D64toI32S'', ''Iop_D64toI32U'', ''Iop_D64toI64S'', ''Iop_D64toI64U'',
    ''Iop_D128toI32S'', ''Iop_D128toI32U'', ''Iop_D128toI64S'', ''Iop_D128toI64U'',
    ''Iop_F32toD32'', ''Iop_F32toD64'', ''Iop_F32toD128'', ''Iop_F64toD32'', ''Iop_F64toD64'',
    ''Iop_F64toD128'', ''Iop_F128toD32'', ''Iop_F128toD64'', ''Iop_F128toD128'',
    ''Iop_D32toF32'', ''Iop_D32toF64'', ''Iop_D32toF128'', ''Iop_D64toF32'', ''Iop_D64toF64'',
    ''Iop_D64toF128'', ''Iop_D128toF32'', ''Iop_D128toF64'', ''Iop_D128toF128'',
    ''Iop_RoundD64toInt'', ''Iop_RoundD128toInt'', ''Iop_QuantizeD64Iop_QuantizeD128'',
    ''Iop_SignificanceRoundD64'', ''Iop_SignificanceRoundD128'', ''Iop_Add32Fx4'',
    ''Iop_Sub32Fx4'', ''Iop_Mul32Fx4'', ''Iop_Div32Fx4'', ''Iop_Add64Fx2'', ''Iop_Sub64Fx2'',
    ''Iop_Mul64Fx2'', ''Iop_Div64Fx2'', ''Iop_Add64Fx4'', ''Iop_Sub64Fx4'', ''Iop_Mul64Fx4'',
    ''Iop_Div64Fx4'', ''Iop_Add32Fx8'', ''Iop_Sub32Fx8'', ''Iop_Mul32Fx8'', ''Iop_Div32Fx8'']"

subsection \<open>Patch extraction\<close>

text \<open>
  \<^verbatim>\<open>make_bindata_internal\<close>, without the memo: \<^verbatim>\<open>_bindata\<close> only stores the list
  this function computes, and the nodes that share a cell (through
  \<^verbatim>\<open>copy_to_self\<close>) share \<^verbatim>\<open>rootval\<close>, \<^verbatim>\<open>addr\<close>, \<^verbatim>\<open>path\<close>, \<^verbatim>\<open>deps\<close> and
  the values it is computed from, so the list stored is the list recomputed. (The
  exceptions are the nodes whose values are extended after the copy: the converted
  node of a conditional load, and a node written to a temporary wider than its
  values.) \<^verbatim>\<open>ConstExpression.make_bindata_internal\<close> returns the empty list.
\<close>

fun make_bindata_internal :: "env \<Rightarrow> expr \<Rightarrow> (bv \<times> patch) list" where
  "make_bindata_internal env (Expr c s t cv dv ds ta r a p) =
     (if c then []
      else if r then
        [(dv, if binary_data_found env a (model_value env cv) (p @ [PStr ''con'', PStr ''value''])
              then BinaryData a (model_value env cv) (p @ [PStr ''con'', PStr ''value''])
              else RawValue (model_value env cv))]
      else concat (map (make_bindata_internal env) ds))"

definition make_bindata :: "env \<Rightarrow> expr \<Rightarrow> nat \<Rightarrow> conglomerate" where
  "make_bindata env self flags =
     \<lparr>c_addr = eaddr self, c_value = model_signed env (cleanval self),
      c_symval = dirtyval self, c_flags = flags,
      c_dependencies = map (\<lambda>(dirty, bindata). (bindata, dirty)) (make_bindata_internal env self)\<rparr>"

subsection \<open>TempStore\<close>

record tempstore =
  tyenv :: "irtype list"
  storage :: "nat \<Rightarrow> expr option"

definition TempStore :: "irtype list \<Rightarrow> tempstore" where
  "TempStore tys = \<lparr>tyenv = tys, storage = Map.empty\<rparr>"

definition TempStore_read :: "tempstore \<Rightarrow> nat \<Rightarrow> error + expr" where
  "TempStore_read self tmp =
     (case storage self tmp of None \<Rightarrow> Inl ValueError | Some v \<Rightarrow> Inr v)"

definition TempStore_size_of :: "tempstore \<Rightarrow> nat \<Rightarrow> error + nat" where
  "TempStore_size_of self tmp =
     (if tmp \<ge> length (tyenv self) then Inl ValueError
      else Inr (extract_int (tyenv self ! tmp)))"

text \<open>
  \<^verbatim>\<open>write\<close>: \<^verbatim>\<open>self.tyenv.types[tmp]\<close> raises \<^verbatim>\<open>IndexError\<close> out of range. The
  source updates the two values of the node in place; the node it stores is the
  updated one.
\<close>

definition TempStore_write :: "tempstore \<Rightarrow> nat \<Rightarrow> expr \<Rightarrow> error + tempstore" where
  "TempStore_write self tmp val =
     (if tmp \<ge> length (tyenv self) then Inl IndexError
      else if etype val \<noteq> tyenv self ! tmp then Inl ValueError
      else case TempStore_size_of self tmp of
        Inl e \<Rightarrow> Inl e
      | Inr sz \<Rightarrow>
          Inr (self\<lparr>storage := (storage self)
                 (tmp \<mapsto> set_vals val (ZExtTo sz (cleanval val)) (ZExtTo sz (dirtyval val)))\<rparr>))"

definition TempStore_default :: "tempstore \<Rightarrow> nat \<Rightarrow> error + tempstore" where
  "TempStore_default self tmp =
     (if tmp \<ge> length (tyenv self) then Inl IndexError
      else TempStore_write self tmp (ConstExpression_default (tyenv self ! tmp)))"

subsection \<open>BlockState\<close>

definition READ :: nat where "READ = 1"
definition WRITE :: nat where "WRITE = 2"
definition POINTER :: nat where "POINTER = 4"
definition UNINITREAD :: nat where "UNINITREAD = 8"

text \<open>
  \<^verbatim>\<open>regs\<close> is a dict; the model keeps it as an association list, looked up with
  \<open>map_of\<close> and written with \<open>AList.update\<close>, and iterates it in the order of
  the list (the order Python 2 iterates a dict in is not fixed by the language; only
  the order of the tags of \<^verbatim>\<open>end\<close> depends on it). \<^verbatim>\<open>mem_regions\<close> is a
  \<^verbatim>\<open>defaultdict(dict)\<close> from region names to dicts keyed by replay values.
  \<^verbatim>\<open>taint_region\<close> is always the name of a frame here.
\<close>

record blockstate =
  bs_addr :: nat
  taint_region :: string
  bs_tempstore :: "tempstore option"
  regs :: "(nat \<times> expr) list"
  mem_regions :: "string \<Rightarrow> bv \<Rightarrow> expr option"
  tags :: "(tagkind \<times> conglomerate) list"

definition BlockState :: "env \<Rightarrow> nat \<Rightarrow> string \<Rightarrow> blockstate" where
  "BlockState env a region =
     \<lparr>bs_addr = a, taint_region = region, bs_tempstore = None,
      regs =
        (if arch_name env = ''AMD64'' then
           AList.update 156 (ConstExpression_default (Ity KI 64))
             (AList.update 144 (ConstExpression_default (Ity KI 64)) [])
         else if arch_name env = ''X86'' then
           AList.update 884 (ConstExpression_default (Ity KI 32))
             (AList.update 216 (ConstExpression_default (Ity KI 32)) [])
         else if startswith (arch_name env) ''ARM'' then
           AList.update (itstate_offset env)
             (set_taints (ConstExpression_default (Ity KI 32))
                ((taints (ConstExpression_default (Ity KI 32)))\<lparr>it := True\<rparr>)) []
         else []),
      mem_regions = (\<lambda>r. Map.empty),
      tags = []\<rparr>"

definition copy :: "env \<Rightarrow> blockstate \<Rightarrow> nat \<Rightarrow> blockstate" where
  "copy env self newaddr =
     (let out = BlockState env newaddr (taint_region self)
      in out\<lparr>regs :=
           fold (\<lambda>(offset, val) r.
                   if truthy (pointer (taints val)) then AList.update offset val r else r)
             (regs self) (regs out)\<rparr>)"

definition load_tempstore :: "blockstate \<Rightarrow> tempstore \<Rightarrow> blockstate" where
  "load_tempstore self ts = self\<lparr>bs_tempstore := Some ts\<rparr>"

text \<open>
  \<^verbatim>\<open>get_reg(regnum, ty)\<close>; an integer \<^verbatim>\<open>ty\<close> is passed as \<open>Ity_I ty\<close>. Two type
  names differ after \<^verbatim>\<open>'Ity_'\<close> exactly when they differ.
\<close>

definition get_reg :: "env \<Rightarrow> blockstate \<Rightarrow> nat \<Rightarrow> irtype \<Rightarrow> (error + expr) \<times> blockstate" where
  "get_reg env self regnum ty =
     (case map_of (regs self) regnum of
        None \<Rightarrow>
          (let d = (if has_F ty \<or> extract_int ty > arch_bits env
                    then ConstExpression_default ty
                    else ConstExpression_default (Ity_I (arch_bits env)))
           in (truncate_expr d ty, self\<lparr>regs := AList.update regnum d (regs self)\<rparr>))
      | Some r \<Rightarrow>
          if has_F (etype r) then
            (if etype r \<noteq> ty then
               (Inr (ConstExpression_default ty),
                self\<lparr>regs := AList.update regnum (ConstExpression_default ty) (regs self)\<rparr>)
             else (Inr r, self))
          else (truncate_expr r ty, self))"

definition get_tmp :: "blockstate \<Rightarrow> nat \<Rightarrow> error + expr" where
  "get_tmp self tmpnum =
     (case bs_tempstore self of None \<Rightarrow> Inl AttributeError
      | Some ts \<Rightarrow> TempStore_read ts tmpnum)"

text \<open>
  The bytes \<^verbatim>\<open>memory[cleanestval + i]\<close>, \<^verbatim>\<open>KeyError\<close> when one is not mapped, and
  the integer \<^verbatim>\<open>int(strval.encode('hex'), 16)\<close> of a byte string (\<^verbatim>\<open>ValueError\<close>
  on the empty string).
\<close>

fun read_bytes :: "(int \<Rightarrow> nat option) \<Rightarrow> int \<Rightarrow> nat \<Rightarrow> error + nat list" where
  "read_bytes mem a 0 = Inr []"
| "read_bytes mem a (Suc n) =
     (case mem a of None \<Rightarrow> Inl KeyError
      | Some b \<Rightarrow> (case read_bytes mem (a + 1) n of Inl e \<Rightarrow> Inl e | Inr bs \<Rightarrow> Inr (b # bs)))"

definition int_of_hex :: "nat list \<Rightarrow> error + int" where
  "int_of_hex bs = (if bs = [] then Inl ValueError
                    else Inr (foldl (\<lambda>acc b. acc * 256 + int b) 0 bs))"

definition get_mem :: "env \<Rightarrow> blockstate \<Rightarrow> expr \<Rightarrow> irtype \<Rightarrow> error + expr" where
  "get_mem env self a ty =
     (if truthy (pointer (taints a)) then
        (case mem_regions self (case pointer (taints a) of Some r \<Rightarrow> r | None \<Rightarrow> [])
                (cleanval a) of
           None \<Rightarrow> Inr (ConstExpression_default ty)
         | Some val \<Rightarrow> if etype val = ty then Inr val else Inr (ConstExpression_default ty))
      else
        (let cleanestval = model_value env (cleanval a) in
         if loader_memory env cleanestval \<noteq> None \<and> \<not> has_F ty then
           (let size_bytes = extract_int ty div 8 in
            case read_bytes (loader_memory env) cleanestval size_bytes of
              Inl e \<Rightarrow> Inl e
            | Inr strval \<Rightarrow>
                (case (if memory_endness env = ''Iend_LE''
                       then Inr (reversed_repr env cleanestval)
                       else int_of_hex strval) of
                   Inl e \<Rightarrow> Inl e
                 | Inr intval \<Rightarrow> Inr (ConstExpression (BVV intval (size_bytes * 8)) ty True)))
         else Inr (ConstExpression_default ty)))"

text \<open>
  \<^verbatim>\<open>access\<close>. \<^verbatim>\<open>make_bindata\<close> is a method of \<^verbatim>\<open>SmartExpression\<close> only.
\<close>

definition access :: "env \<Rightarrow> blockstate \<Rightarrow> expr \<Rightarrow> nat \<Rightarrow> error + blockstate" where
  "access env self addr_expression access_type =
     (if pointer (taints addr_expression) \<noteq> Some (taint_region self) then Inr self
      else if is_const addr_expression then Inl AttributeError
      else Inr (self\<lparr>tags := tags self @
                  [(ACCESS, make_bindata env addr_expression access_type)]\<rparr>))"

subsection \<open>SmartExpression\<close>

text \<open>
  The name \<^verbatim>\<open>'%x_%d' % (addr, path[1])\<close> of the symbol of a literal:
  \<^verbatim>\<open>IndexError\<close> when the path has no second entry, \<^verbatim>\<open>TypeError\<close> when that
  entry is not a number or the address is \<^verbatim>\<open>None\<close>.
\<close>

definition sym_name :: "nat option \<Rightarrow> pathelem list \<Rightarrow> error + nat \<times> nat" where
  "sym_name a p =
     (case p of
        x # PInt i # r \<Rightarrow> (case a of None \<Rightarrow> Inl TypeError | Some n \<Rightarrow> Inr (n, i))
      | x # PStr y # r \<Rightarrow> Inl TypeError
      | _ \<Rightarrow> Inl IndexError)"

text \<open>The branch \<^verbatim>\<open>Iex_Const\<close> / \<^verbatim>\<open>Ico_\<close>, on the node \<open>self\<close> built so far.\<close>

definition const_node :: "expr \<Rightarrow> irconst \<Rightarrow> error + expr" where
  "const_node self con =
     (if has_F (etype self) \<and> esize self \<noteq> 32 \<and> esize self \<noteq> 64 then Inl FidgetUnsupportedError
      else case sym_name (eaddr self) (epath self) of
        Inl e \<Rightarrow> Inl e
      | Inr k \<Rightarrow>
          Inr (set_taints
                 (set_rootval
                    (if has_F (etype self)
                     then set_vals self (FPV (con_value con) (esize self)) (FPS k (esize self))
                     else set_vals self (BVV (con_value con) (esize self)) (BVS k (esize self)))
                    True)
                 ((taints self)\<lparr>concrete := True\<rparr>)))"

text \<open>The branch \<^verbatim>\<open>Iex_ITE\<close>, once the three operands are built.\<close>

definition ite_node :: "expr \<Rightarrow> expr \<Rightarrow> expr \<Rightarrow> expr \<Rightarrow> expr" where
  "ite_node self false_expr truth_expr cond_expr =
     (let s1 = (if truthy (pointer (taints truth_expr)) then copy_to_self self truth_expr
                else copy_to_self self false_expr);
          s2 = (if \<not> it (taints cond_expr)
                then set_taints s1 ((taints s1)\<lparr>concrete :=
                       concrete (taints false_expr) \<and> concrete (taints truth_expr)\<rparr>)
                else s1)
      in set_taints s2 ((taints s2)\<lparr>it := it (taints false_expr) \<or> it (taints truth_expr)\<rparr>))"

text \<open>
  The region taint of an operator node:
  \<^verbatim>\<open>((t1 if t1 == t2 else False) if t1 and t2 else t1) if t1 or t2 else False\<close> for
  add, and, or, xor, and \<^verbatim>\<open>t1 if t1 and not t2 else False\<close> for subtract.
\<close>

definition add_taint :: "string option \<Rightarrow> string option \<Rightarrow> string option" where
  "add_taint t1 t2 =
     (if truthy t1 \<or> truthy t2
      then (if truthy t1 \<and> truthy t2 then (if t1 = t2 then t1 else None) else t1)
      else None)"

definition sub_taint :: "string option \<Rightarrow> string option \<Rightarrow> string option" where
  "sub_taint t1 t2 = (if truthy t1 \<and> \<not> truthy t2 then t1 else None)"

text \<open>
  The two \<^verbatim>\<open>except\<close> clauses of the operator branch: \<^verbatim>\<open>SimOperationError\<close> and
  \<^verbatim>\<open>KeyError\<close> leave the node as it is, marked not concrete; any other exception
  goes on.
\<close>

definition op_except :: "expr \<Rightarrow> error \<Rightarrow> error + expr" where
  "op_except self e =
     (if e = SimOperationError \<or> e = KeyError
      then Inr (set_taints self ((taints self)\<lparr>concrete := False\<rparr>))
      else Inl e)"

text \<open>
  The body of the \<^verbatim>\<open>try\<close> of the operator branch, after the loop over the
  arguments: \<open>err\<close> is the exception that ended the loop, if any, and \<open>ds\<close> the
  nodes of the arguments built before it.
\<close>

definition op_node :: "env \<Rightarrow> expr \<Rightarrow> string \<Rightarrow> error option \<Rightarrow> expr list \<Rightarrow> error + expr" where
  "op_node env self0 opn err ds =
     (let self1 = set_deps
            (set_taints self0 ((taints self0)\<lparr>
               concrete := list_all (\<lambda>d. concrete (taints d)) ds,
               it := it (taints self0) \<or> list_ex (\<lambda>d. it (taints d)) ds\<rparr>)) ds
      in case err of
        Some e \<Rightarrow> op_except self1 e
      | None \<Rightarrow>
          (let ds1 = (if startswith opn ''Iop_Mul'' \<or> startswith opn ''Iop_And''
                      then shield_constants ds None 0 else ds);
               ds2 = (if opn \<in> set ROUNDING_IROPS
                      then shield_constants ds1 (Some [0]) 0 else ds1);
               self2 = set_deps self1 ds2
           in case operations env opn of
             None \<Rightarrow> op_except self2 KeyError
           | Some calculate \<Rightarrow>
               (case calculate (map cleanval ds2) of
                  Inl e \<Rightarrow> op_except self2 e
                | Inr cv \<Rightarrow>
                    (case calculate (map dirtyval ds2) of
                       Inl e \<Rightarrow> op_except (set_vals self2 cv (dirtyval self2)) e
                     | Inr dv \<Rightarrow>
                         (let self3 = set_vals self2 cv dv in
                          if startswith opn ''Iop_Add'' \<or> startswith opn ''Iop_And'' \<or>
                             startswith opn ''Iop_Or'' \<or> startswith opn ''Iop_Xor''
                          then (case ds2 of
                                  d0 # d1 # r \<Rightarrow>
                                    Inr (set_taints self3 ((taints self3)\<lparr>pointer :=
                                      add_taint (pointer (taints d0)) (pointer (taints d1))\<rparr>))
                                | _ \<Rightarrow> Inl IndexError)
                          else if startswith opn ''Iop_Sub''
                          then (case ds2 of
                                  d0 # d1 # r \<Rightarrow>
                                    Inr (set_taints self3 ((taints self3)\<lparr>pointer :=
                                      sub_taint (pointer (taints d0)) (pointer (taints d1))\<rparr>))
                                | _ \<Rightarrow> Inl IndexError)
                          else Inr self3)))))"

text \<open>
  \<^verbatim>\<open>SmartExpression.__init__(blockstate, vexpression, addr, path)\<close>. It returns the
  node, or the exception, and the block state as the call leaves it: an exception
  raised inside an operator node's \<^verbatim>\<open>try\<close> may be caught there, and what was done
  to the state before stays done. \<open>smart_args\<close> is the loop over
  \<^verbatim>\<open>enumerate(vexpression.args)\<close>, from index \<open>i\<close>.
\<close>

fun smart_expression ::
    "env \<Rightarrow> blockstate \<Rightarrow> vexpr \<Rightarrow> nat option \<Rightarrow> pathelem list \<Rightarrow> (error + expr) \<times> blockstate"
  and smart_args ::
    "env \<Rightarrow> blockstate \<Rightarrow> vexpr list \<Rightarrow> nat option \<Rightarrow> pathelem list \<Rightarrow> nat
       \<Rightarrow> error option \<times> expr list \<times> blockstate" where
  "smart_expression env bs (Iex_Get offset ty) a p =
     (case get_reg env bs offset ty of
        (Inl e, bs1) \<Rightarrow> (Inl e, bs1)
      | (Inr r, bs1) \<Rightarrow> (Inr (copy_to_self (new_smart ty a p) r), bs1))"
| "smart_expression env bs (Iex_RdTmp tmp ty) a p =
     (case get_tmp bs tmp of
        Inl e \<Rightarrow> (Inl e, bs)
      | Inr r \<Rightarrow> (Inr (copy_to_self (new_smart ty a p) r), bs))"
| "smart_expression env bs (Iex_Load ad ty) a p =
     (case smart_expression env bs ad a (p @ [PStr ''addr'']) of
        (Inl e, bs1) \<Rightarrow> (Inl e, bs1)
      | (Inr addr_expression, bs1) \<Rightarrow>
          (case access env bs1 addr_expression READ of
             Inl e \<Rightarrow> (Inl e, bs1)
           | Inr bs2 \<Rightarrow>
               (case get_mem env bs2 addr_expression ty of
                  Inl e \<Rightarrow> (Inl e, bs2)
                | Inr v \<Rightarrow> (Inr (copy_to_self (new_smart ty a p) v), bs2))))"
| "smart_expression env bs (Iex_Const con) a p =
     (const_node (new_smart (con_type con) a p) con, bs)"
| "smart_expression env bs (Ico con) a p =
     (const_node (new_smart (con_type con) a p) con, bs)"
| "smart_expression env bs (Iex_ITE cond iftrue iffalse ty) a p =
     (case smart_expression env bs iffalse a (p @ [PStr ''iffalse'']) of
        (Inl e, bs1) \<Rightarrow> (Inl e, bs1)
      | (Inr false_expr, bs1) \<Rightarrow>
          (case smart_expression env bs1 iftrue a (p @ [PStr ''iftrue'']) of
             (Inl e, bs2) \<Rightarrow> (Inl e, bs2)
           | (Inr truth_expr, bs2) \<Rightarrow>
               (case smart_expression env bs2 cond a (p @ [PStr ''cond'']) of
                  (Inl e, bs3) \<Rightarrow> (Inl e, bs3)
                | (Inr cond_expr, bs3) \<Rightarrow>
                    (Inr (ite_node (new_smart ty a p) false_expr truth_expr cond_expr), bs3))))"
| "smart_expression env bs (Iex_Op opn args ty) a p =
     (case smart_args env bs args a p 0 of
        (err, ds, bs1) \<Rightarrow> (op_node env (new_smart ty a p) opn err ds, bs1))"
| "smart_expression env bs (Iex_CCall args ty) a p =
     (case smart_args env bs args a p 0 of
        (Some e, ds, bs1) \<Rightarrow> (Inl e, bs1)
      | (None, ds, bs1) \<Rightarrow>
          (Inr (set_taints (new_smart ty a p) ((taints (new_smart ty a p))\<lparr>it :=
                  it (taints (new_smart ty a p)) \<or> list_ex (\<lambda>d. it (taints d)) ds\<rparr>)), bs1))"
| "smart_expression env bs (Iex_GetI ty) a p = (Inr (new_smart ty a p), bs)"
| "smart_expression env bs (Iex_Other tag ty) a p = (Inl FidgetUnsupportedError, bs)"
| "smart_args env bs [] a p i = (None, [], bs)"
| "smart_args env bs (x # xs) a p i =
     (case smart_expression env bs x a (p @ [PStr ''args'', PInt i]) of
        (Inl e, bs1) \<Rightarrow> (Some e, [], bs1)
      | (Inr arg, bs1) \<Rightarrow>
          (case smart_args env bs1 xs a p (Suc i) of
             (r, ds, bs2) \<Rightarrow> (r, arg # ds, bs2)))"

text \<open>
  The lifter gives flat IR: the operands of a statement are temporaries or constants.
\<close>

fun is_atom :: "vexpr \<Rightarrow> bool" where
  "is_atom (Iex_RdTmp tmp ty) = True"
| "is_atom (Iex_Const con) = True"
| "is_atom x = False"

subsection \<open>BlockState.assign\<close>

definition contains :: "string \<Rightarrow> string \<Rightarrow> bool" where
  "contains s sub = sublist sub s"

text \<open>
  \<^verbatim>\<open>assign(vextatement, expression, stmt_idx)\<close>, branch by branch. The walker calls
  it for the three statement tags below only.
\<close>

definition assign_WrTmp :: "blockstate \<Rightarrow> nat \<Rightarrow> expr \<Rightarrow> error + blockstate" where
  "assign_WrTmp self tmp expression =
     (case bs_tempstore self of
        None \<Rightarrow> Inl AttributeError
      | Some ts \<Rightarrow>
          (case TempStore_write ts tmp expression of
             Inl e \<Rightarrow> Inl e
           | Inr ts' \<Rightarrow> Inr (self\<lparr>bs_tempstore := Some ts'\<rparr>)))"

definition put_regs :: "env \<Rightarrow> (nat \<times> expr) list \<Rightarrow> nat \<Rightarrow> expr \<Rightarrow> (nat \<times> expr) list" where
  "put_regs env rs offset expression =
     (if has_F (etype expression) \<or> esize expression > arch_bits env
      then AList.update offset expression rs
      else (case map_of rs offset of
              None \<Rightarrow>
                AList.update offset
                  (overwrite expression (ConstExpression_default (Ity_I (arch_bits env))))
                  (AList.update offset (ConstExpression_default (Ity_I (arch_bits env))) rs)
            | Some old \<Rightarrow> AList.update offset (overwrite expression old) rs))"

definition assign_Put :: "env \<Rightarrow> blockstate \<Rightarrow> nat \<Rightarrow> expr \<Rightarrow> error + blockstate" where
  "assign_Put env self offset expression =
     (let self1 = self\<lparr>regs := put_regs env (regs self) offset expression\<rparr> in
      if offset = sp_offset env \<and> contains (taint_region self1) ''stack'' then
        (if \<not> concrete (taints expression) then Inl FidgetAnalysisFailure
         else if model_value env (cleanval expression) = 0
         then Inr (self1\<lparr>tags := tags self1 @ [(ALLOC, make_bindata env expression 0)]\<rparr>)
         else Inr (self1\<lparr>tags := tags self1 @ [(ALLOC, make_bindata env expression 0)]\<rparr>))
      else Inr self1)"

definition set_mem :: "blockstate \<Rightarrow> expr \<Rightarrow> expr \<Rightarrow> blockstate" where
  "set_mem self addr_expr val =
     self\<lparr>mem_regions := (mem_regions self)
       ((case pointer (taints addr_expr) of Some r \<Rightarrow> r | None \<Rightarrow> []) :=
          (mem_regions self (case pointer (taints addr_expr) of Some r \<Rightarrow> r | None \<Rightarrow> []))
            (cleanval addr_expr \<mapsto> val))\<rparr>"

definition assign_Store ::
    "env \<Rightarrow> blockstate \<Rightarrow> vexpr \<Rightarrow> expr \<Rightarrow> nat \<Rightarrow> error + blockstate" where
  "assign_Store env self ad expression stmt_idx =
     (case smart_expression env self ad (eaddr expression)
             [PStr ''statements'', PInt stmt_idx, PStr ''addr''] of
        (Inl e, self1) \<Rightarrow> Inl e
      | (Inr addr_expr, self1) \<Rightarrow>
          (case access env self1 addr_expr WRITE of
             Inl e \<Rightarrow> Inl e
           | Inr self2 \<Rightarrow>
               (let self3 = (if truthy (pointer (taints addr_expr))
                             then set_mem self2 addr_expr expression else self2)
                in if truthy (pointer (taints expression))
                   then access env self3 expression POINTER
                   else Inr self3)))"

fun assign :: "env \<Rightarrow> blockstate \<Rightarrow> stmt \<Rightarrow> expr \<Rightarrow> nat \<Rightarrow> error + blockstate" where
  "assign env self (Ist_WrTmp tmp d) expression stmt_idx = assign_WrTmp self tmp expression"
| "assign env self (Ist_Put offset d) expression stmt_idx = assign_Put env self offset expression"
| "assign env self (Ist_Store ad d) expression stmt_idx =
     assign_Store env self ad expression stmt_idx"
| "assign env self s expression stmt_idx = Inr self"

subsection \<open>The statements of one instruction\<close>

text \<open>
  The node a conditional load writes: a \<^verbatim>\<open>CustomExpression\<close> that copies the loaded
  node, takes the type \<^verbatim>\<open>cvt_types[1]\<close> and has its two values extended by
  \<^verbatim>\<open>conv_diff\<close> bits. The source never sets its \<^verbatim>\<open>size\<close> and never reads it
  (the node only goes into the TempStore, and \<^verbatim>\<open>copy_to_self\<close> does not copy the
  size); the model gives it the width of its type.
\<close>

definition cvt_expression :: "expr \<Rightarrow> string \<Rightarrow> irtype \<Rightarrow> irtype \<Rightarrow> expr" where
  "cvt_expression data_expression cvt ty0 ty1 =
     (let conv_diff = int (extract_int ty1) - int (extract_int ty0);
          ext = (\<lambda>v. if conv_diff \<noteq> 0
                      then (if CHR ''S'' \<in> set cvt then SignExt (nat conv_diff) v
                            else ZeroExt (nat conv_diff) v)
                      else v)
      in Expr False (extract_int ty1) ty1
           (ext (cleanval data_expression)) (ext (dirtyval data_expression))
           (deps data_expression) (taints data_expression) (rootval data_expression)
           (eaddr data_expression) (epath data_expression))"

definition tempstore_default :: "blockstate \<Rightarrow> nat \<Rightarrow> error + blockstate" where
  "tempstore_default self tmp =
     (case bs_tempstore self of
        None \<Rightarrow> Inl AttributeError
      | Some ts \<Rightarrow>
          (case TempStore_default ts tmp of
             Inl e \<Rightarrow> Inl e
           | Inr ts' \<Rightarrow> Inr (self\<lparr>bs_tempstore := Some ts'\<rparr>)))"

text \<open>
  One pass of the loop over the statements of an instruction, in
  \<^verbatim>\<open>analyze_stack\<close>: \<open>name\<close> is \<^verbatim>\<open>struct.name\<close>, \<open>a\<close> the address of the
  instruction, \<open>i\<close> the index of the statement. An \<^verbatim>\<open>Ist_IMark\<close> met here has no
  branch of its own and ends in the last \<^verbatim>\<open>else\<close>.
\<close>

fun interp_stmt :: "env \<Rightarrow> string \<Rightarrow> blockstate \<Rightarrow> nat \<Rightarrow> nat \<Rightarrow> stmt \<Rightarrow> error + blockstate" where
  "interp_stmt env name bs a i Ist_NoOp = Inr bs"
| "interp_stmt env name bs a i Ist_AbiHint = Inr bs"
| "interp_stmt env name bs a i Ist_MBE = Inr bs"
| "interp_stmt env name bs a i (Ist_Exit dst) =
     (case smart_expression env bs (Ico dst) (Some a)
             [PStr ''statements'', PInt i, PStr ''dst''] of
        (Inl e, bs1) \<Rightarrow> Inl e
      | (Inr x, bs1) \<Rightarrow> Inr bs1)"
| "interp_stmt env name bs a i (Ist_WrTmp tmp d) =
     (case smart_expression env bs d (Some a) [PStr ''statements'', PInt i, PStr ''data''] of
        (Inl e, bs1) \<Rightarrow> Inl e
      | (Inr this_expression, bs1) \<Rightarrow> assign env bs1 (Ist_WrTmp tmp d) this_expression i)"
| "interp_stmt env name bs a i (Ist_Store ad d) =
     (case smart_expression env bs d (Some a) [PStr ''statements'', PInt i, PStr ''data''] of
        (Inl e, bs1) \<Rightarrow> Inl e
      | (Inr this_expression, bs1) \<Rightarrow> assign env bs1 (Ist_Store ad d) this_expression i)"
| "interp_stmt env name bs a i (Ist_Put offset d) =
     (case smart_expression env bs d (Some a) [PStr ''statements'', PInt i, PStr ''data''] of
        (Inl e, bs1) \<Rightarrow> Inl e
      | (Inr this_expression, bs1) \<Rightarrow> assign env bs1 (Ist_Put offset d) this_expression i)"
| "interp_stmt env name bs a i (Ist_LoadG ad alt guard dst cvt ty0 ty1) =
     (case smart_expression env bs ad (Some a) [PStr ''statements'', PInt i, PStr ''addr''] of
        (Inl e, bs1) \<Rightarrow> Inl e
      | (Inr addr_expression, bs1) \<Rightarrow>
          (case access env bs1 addr_expression READ of
             Inl e \<Rightarrow> Inl e
           | Inr bs2 \<Rightarrow>
               (case get_mem env bs2 addr_expression ty0 of
                  Inl e \<Rightarrow> Inl e
                | Inr data_expression \<Rightarrow>
                    (case assign_WrTmp bs2 dst (cvt_expression data_expression cvt ty0 ty1) of
                       Inl e \<Rightarrow> Inl e
                     | Inr bs3 \<Rightarrow>
                         (case smart_expression env bs3 guard (Some a)
                                 [PStr ''statements'', PInt i, PStr ''guard''] of
                            (Inl e, bs4) \<Rightarrow> Inl e
                          | (Inr g, bs4) \<Rightarrow>
                              (case smart_expression env bs4 alt (Some a)
                                      [PStr ''statements'', PInt i, PStr ''alt''] of
                                 (Inl e, bs5) \<Rightarrow> Inl e
                               | (Inr al, bs5) \<Rightarrow> Inr bs5))))))"
| "interp_stmt env name bs a i (Ist_StoreG ad d guard) =
     (case smart_expression env bs ad (Some a) [PStr ''statements'', PInt i, PStr ''addr''] of
        (Inl e, bs1) \<Rightarrow> Inl e
      | (Inr addr_expr, bs1) \<Rightarrow>
          (case smart_expression env bs1 d (Some a)
                  [PStr ''statements'', PInt i, PStr ''data''] of
             (Inl e, bs2) \<Rightarrow> Inl e
           | (Inr value_expr, bs2) \<Rightarrow>
               (case access env bs2 addr_expr WRITE of
                  Inl e \<Rightarrow> Inl e
                | Inr bs3 \<Rightarrow>
                    (case (let bs3' = (if truthy (pointer (taints addr_expr))
                                       then set_mem bs3 addr_expr value_expr else bs3)
                           in if pointer (taints value_expr) = Some name
                              then access env bs3' value_expr POINTER
                              else Inr bs3') of
                       Inl e \<Rightarrow> Inl e
                     | Inr bs4 \<Rightarrow>
                         (case smart_expression env bs4 guard (Some a)
                                 [PStr ''statements'', PInt i, PStr ''guard''] of
                            (Inl e, bs5) \<Rightarrow> Inl e
                          | (Inr g, bs5) \<Rightarrow> Inr bs5)))))"
| "interp_stmt env name bs a i (Ist_PutI d) =
     (case smart_expression env bs d (Some a) [PStr ''statements'', PInt i, PStr ''data''] of
        (Inl e, bs1) \<Rightarrow> Inl e
      | (Inr x, bs1) \<Rightarrow> Inr bs1)"
| "interp_stmt env name bs a i (Ist_CAS oldLo oldHi) =
     (case (if oldLo \<noteq> 4294967295 then tempstore_default bs oldLo else Inr bs) of
        Inl e \<Rightarrow> Inl e
      | Inr bs1 \<Rightarrow> (if oldHi \<noteq> 4294967295 then tempstore_default bs1 oldHi else Inr bs1))"
| "interp_stmt env name bs a i (Ist_Dirty tmp) =
     (if tmp \<noteq> 4294967295 then tempstore_default bs tmp else Inr bs)"
| "interp_stmt env name bs a i (Ist_IMark ad delta) = Inl FidgetUnsupportedError"
| "interp_stmt env name bs a i (Ist_Other tag) = Inl FidgetUnsupportedError"

text \<open>The loop over the statements, from the statement of index \<open>i\<close> on.\<close>

fun run_stmts :: "env \<Rightarrow> string \<Rightarrow> blockstate \<Rightarrow> nat \<Rightarrow> nat \<Rightarrow> stmt list \<Rightarrow> error + blockstate" where
  "run_stmts env name bs a i [] = Inr bs"
| "run_stmts env name bs a i (s # ss) =
     (case interp_stmt env name bs a i s of
        Inl e \<Rightarrow> Inl e
      | Inr bs1 \<Rightarrow> run_stmts env name bs1 a (Suc i) ss)"

text \<open>
  The first loop over \<^verbatim>\<open>stmtgen\<close> runs up to the first \<^verbatim>\<open>IMark\<close>; the second goes
  on after it, with the indices of \<^verbatim>\<open>enumerate\<close>.
\<close>

fun skip_imark :: "nat \<Rightarrow> stmt list \<Rightarrow> nat \<times> stmt list" where
  "skip_imark i [] = (i, [])"
| "skip_imark i (Ist_IMark ad delta # ss) = (Suc i, ss)"
| "skip_imark i (s # ss) = skip_imark (Suc i) ss"

definition run_insn :: "env \<Rightarrow> string \<Rightarrow> blockstate \<Rightarrow> nat \<Rightarrow> error + blockstate" where
  "run_insn env name bs a =
     (case lift_insn env a of
        None \<Rightarrow> Inl AngrMemoryError
      | Some insnblock \<Rightarrow>
          (case skip_imark 0 (statements insnblock) of
             (i, rest) \<Rightarrow>
               run_stmts env name (load_tempstore bs (TempStore (tyenv_types insnblock))) a i rest))"

subsection \<open>The walk over the blocks of a function\<close>

text \<open>The loop \<^verbatim>\<open>for addr in mark_addrs\<close>; \<open>c\<close> is \<^verbatim>\<open>cache\<close>.\<close>

fun run_insns ::
    "env \<Rightarrow> nat \<Rightarrow> string \<Rightarrow> blockstate \<Rightarrow> nat set \<Rightarrow> nat list \<Rightarrow> error + blockstate \<times> nat set" where
  "run_insns env funcaddr name bs c [] = Inr (bs, c)"
| "run_insns env funcaddr name bs c (a # as) =
     (if a \<noteq> funcaddr \<and> map_of (cfg_functions env) a \<noteq> None then Inl FidgetAnalysisFailure
      else case run_insn env name bs a of
        Inl e \<Rightarrow> Inl e
      | Inr bs1 \<Rightarrow> run_insns env funcaddr name bs1 (insert a c) as)"

fun imark_addrs :: "stmt list \<Rightarrow> nat list" where
  "imark_addrs [] = []"
| "imark_addrs (Ist_IMark ad delta # ss) = (ad + delta) # imark_addrs ss"
| "imark_addrs (s # ss) = imark_addrs ss"

text \<open>\<^verbatim>\<open>mark_addrs\<close>; \<^verbatim>\<open>pop()\<close> on an empty list raises \<^verbatim>\<open>IndexError\<close>.\<close>

definition mark_addrs :: "irsb \<Rightarrow> error + nat list" where
  "mark_addrs block =
     (if jumpkind block = ''Ijk_NoDecode''
      then (if imark_addrs (statements block) = [] then Inl IndexError
            else Inr (butlast (imark_addrs (statements block))))
      else Inr (imark_addrs (statements block)))"

text \<open>
  The four lines under \<^verbatim>\<open>if block.jumpkind == 'Ijk_Call' and
  self.project.arch.call_pushes_ret\<close>: \<^verbatim>\<open>stack.deps[0]\<close> and \<^verbatim>\<open>stack.deps[1]\<close>
  raise \<^verbatim>\<open>IndexError\<close> on a node with too few operands.
\<close>

definition pop_return_address :: "env \<Rightarrow> blockstate \<Rightarrow> error + blockstate" where
  "pop_return_address env bs =
     (case get_reg env bs (sp_offset env) (Ity_I (arch_bits env)) of
        (Inl e, bs1) \<Rightarrow> Inl e
      | (Inr stack, bs1) \<Rightarrow>
          (case (case deps stack of
                   [] \<Rightarrow> Inl IndexError
                 | d0 # r \<Rightarrow>
                     if truthy (pointer (taints d0)) then Inr d0
                     else (case r of [] \<Rightarrow> Inl IndexError | d1 # r' \<Rightarrow> Inr d1)) of
             Inl e \<Rightarrow> Inl e
           | Inr popped \<Rightarrow>
               Inr (bs1\<lparr>regs := AList.update (sp_offset env) popped (regs bs1),
                        tags := take (length (tags bs1) - 2) (tags bs1)\<rparr>)))"

text \<open>
  The addresses the two loops over the CFG enqueue copies for, in order; \<open>h\<close> is
  \<^verbatim>\<open>headcache\<close> and \<open>c\<close> is \<^verbatim>\<open>cache\<close>.
\<close>

definition successor_addrs :: "env \<Rightarrow> nat \<Rightarrow> nat set \<Rightarrow> nat set \<Rightarrow> nat list" where
  "successor_addrs env a h c =
     concat (map (\<lambda>context.
       concat (map (\<lambda>(node, jk).
         if jk \<notin> set OK_CONTINUE_JUMPS then []
         else if node_addr node \<in> h then []
         else if simprocedure_name node \<noteq> None then []
         else if node_addr node \<in> c then
           map (\<lambda>(succ, jk2). node_addr succ)
             (filter (\<lambda>(succ, jk2). jk2 \<in> set OK_CONTINUE_JUMPS \<and> node_addr succ \<notin> c \<and>
                                    simprocedure_name succ = None)
                (get_successors_and_jumpkind env False node))
         else [node_addr node])
         (get_successors_and_jumpkind env False context)))
       (get_all_nodes env a))"

text \<open>
  The end of a block, from \<^verbatim>\<open>if block.jumpkind == 'Ijk_Call' or ...\<close> to the last
  \<^verbatim>\<open>else\<close>: the state, and the copies to append to the queue.
\<close>

definition block_end ::
    "env \<Rightarrow> blockstate \<Rightarrow> string \<Rightarrow> nat set \<Rightarrow> nat set \<Rightarrow> error + blockstate \<times> blockstate list" where
  "block_end env bs jk h c =
     (if jk = ''Ijk_Call'' \<or> jk \<in> set OK_CONTINUE_JUMPS then
        (case (if jk = ''Ijk_Call'' \<and> call_pushes_ret env
               then pop_return_address env bs else Inr bs) of
           Inl e \<Rightarrow> Inl e
         | Inr bs1 \<Rightarrow> Inr (bs1, map (copy env bs1) (successor_addrs env (bs_addr bs1) h c)))
      else if jk = ''Ijk_Ret'' \<or> jk = ''Ijk_NoDecode'' then Inr (bs, [])
      else Inl FidgetError)"

text \<open>\<^verbatim>\<open>BlockState.end\<close>.\<close>

fun end_loop :: "env \<Rightarrow> blockstate \<Rightarrow> (nat \<times> expr) list \<Rightarrow> error + blockstate" where
  "end_loop env bs [] = Inr bs"
| "end_loop env bs ((offset, val) # rs) =
     (if offset = sp_offset env \<or> offset = bp_offset env \<or> offset = ip_offset env
      then end_loop env bs rs
      else case access env bs val POINTER of
        Inl e \<Rightarrow> Inl e
      | Inr bs1 \<Rightarrow> end_loop env bs1 rs)"

definition BlockState_end :: "env \<Rightarrow> blockstate \<Rightarrow> error + blockstate" where
  "BlockState_end env bs = end_loop env bs (regs bs)"

text \<open>
  The state of the \<^verbatim>\<open>while\<close> loop of \<^verbatim>\<open>analyze_stack\<close> and one pass of its body.
  The last loop of the body hands each tag to \<^verbatim>\<open>struct.alloc\<close> or
  \<^verbatim>\<open>struct.access\<close>; a tag is one of the two kinds, so its \<^verbatim>\<open>else\<close> is never
  taken.
\<close>

record walk =
  queue :: "blockstate list"
  headcache :: "nat set"
  cache :: "nat set"
  frame :: struct

definition loop_body :: "env \<Rightarrow> nat \<Rightarrow> walk \<Rightarrow> error + walk" where
  "loop_body env funcaddr w =
     (case queue w of
        [] \<Rightarrow> Inl IndexError
      | blockstate # q \<Rightarrow>
          if bs_addr blockstate \<in> headcache w then Inr (w\<lparr>queue := q\<rparr>)
          else case lift_block env (bs_addr blockstate) of
            None \<Rightarrow> Inr (w\<lparr>queue := q\<rparr>)
          | Some block \<Rightarrow>
              (case mark_addrs block of
                 Inl e \<Rightarrow> Inl e
               | Inr ms \<Rightarrow>
                   (case run_insns env funcaddr (struct_name (frame w)) blockstate (cache w) ms of
                      Inl e \<Rightarrow> Inl e
                    | Inr (bs1, c1) \<Rightarrow>
                        (case block_end env bs1 (jumpkind block)
                                (insert (bs_addr blockstate) (headcache w)) c1 of
                           Inl e \<Rightarrow> Inl e
                         | Inr (bs2, new) \<Rightarrow>
                             (case BlockState_end env bs2 of
                                Inl e \<Rightarrow> Inl e
                              | Inr bs3 \<Rightarrow>
                                  Inr \<lparr>queue = q @ new,
                                       headcache = insert (bs_addr blockstate) (headcache w),
                                       cache = c1,
                                       frame = (frame w)\<lparr>struct_events :=
                                         struct_events (frame w) @ tags bs3\<rparr>\<rparr>)))))"

text \<open>
  The \<^verbatim>\<open>while len(queue) > 0\<close> loop: \<open>None\<close> when it does not end.
\<close>

partial_function (option) walk_loop :: "env \<Rightarrow> nat \<Rightarrow> walk \<Rightarrow> (error + struct) option" where
  "walk_loop env funcaddr w =
     (if queue w = [] then Some (Inr (frame w))
      else case loop_body env funcaddr w of
        Inl e \<Rightarrow> Some (Inl e)
      | Inr w' \<Rightarrow> walk_loop env funcaddr w')"

text \<open>
  \<^verbatim>\<open>analyze_stack(funcaddr)\<close>; \<open>name\<close> is the name of the \<^verbatim>\<open>Struct\<close> it creates.
\<close>

definition stackexp :: "env \<Rightarrow> string \<Rightarrow> nat \<Rightarrow> expr" where
  "stackexp env name funcaddr =
     Expr True (arch_bits env) (Ity_I (arch_bits env)) (BVV 0 (arch_bits env))
       (BVV 0 (arch_bits env)) []
       \<lparr>pointer = Some name, concrete = True, it = False\<rparr> False (Some funcaddr) []"

definition initial_state :: "env \<Rightarrow> string \<Rightarrow> nat \<Rightarrow> blockstate" where
  "initial_state env name funcaddr =
     (BlockState env funcaddr name)\<lparr>regs :=
        AList.update (sp_offset env) (stackexp env name funcaddr)
          (regs (BlockState env funcaddr name))\<rparr>"

definition initial_walk :: "env \<Rightarrow> string \<Rightarrow> nat \<Rightarrow> walk" where
  "initial_walk env name funcaddr =
     \<lparr>queue = [initial_state env name funcaddr], headcache = {}, cache = {},
      frame = \<lparr>struct_name = name, struct_events = []\<rparr>\<rparr>"

definition analyze_stack :: "env \<Rightarrow> string \<Rightarrow> nat \<Rightarrow> (error + struct) option" where
  "analyze_stack env name funcaddr = walk_loop env funcaddr (initial_walk env name funcaddr)"

text \<open>
  The state of the loop after \<open>n\<close> passes of its body from \<open>w\<close>, when the loop
  makes that many without an exception.
\<close>

fun passes :: "nat \<Rightarrow> env \<Rightarrow> nat \<Rightarrow> walk \<Rightarrow> walk option" where
  "passes 0 env funcaddr w = Some w"
| "passes (Suc n) env funcaddr w =
     (if queue w = [] then None
      else case loop_body env funcaddr w of
        Inl e \<Rightarrow> None
      | Inr w' \<Rightarrow> passes n env funcaddr w')"

subsection \<open>The driver\<close>

text \<open>
  Modelled from the spec: \<^verbatim>\<open>errors.py\<close>, which declares the exception classes,
  is not in the source file, so the source does not tell which exceptions the driver's
  handler \<^verbatim>\<open>except FidgetAnalysisFailure\<close> catches beside
  \<^verbatim>\<open>FidgetAnalysisFailure\<close> itself. The spec (sections 4.2 and 7) has the driver
  catch, as a per-function failure, the recoverable failure and the
  unsupported-construct error alike; so the handler catches
  \<^verbatim>\<open>FidgetAnalysisFailure\<close> and \<^verbatim>\<open>FidgetUnsupportedError\<close>, and no other
  exception raised here.
\<close>

definition is_analysis_failure :: "error \<Rightarrow> bool" where
  "is_analysis_failure e = (e = FidgetAnalysisFailure \<or> e = FidgetUnsupportedError)"

text \<open>
  The loop of \<^verbatim>\<open>StructureAnalysis.__init__\<close> over \<^verbatim>\<open>functions_list\<close>; \<open>k\<close>
  counts the frames created so far.
\<close>

record results =
  structures :: "string \<Rightarrow> struct option"
  stack_frames :: "nat \<Rightarrow> string option"

definition add_struct :: "results \<Rightarrow> struct \<Rightarrow> results" where
  "add_struct res s = res\<lparr>structures := (structures res)(struct_name s \<mapsto> s)\<rparr>"

fun driver_loop :: "env \<Rightarrow> func list \<Rightarrow> nat \<Rightarrow> results \<Rightarrow> (error + results) option" where
  "driver_loop env [] k res = Some (Inr res)"
| "driver_loop env (f # fs) k res =
     (case analyze_stack env (new_struct_name env k) (func_addr f) of
        None \<Rightarrow> None
      | Some (Inl e) \<Rightarrow>
          if is_analysis_failure e
          then driver_loop env fs (Suc k) res
          else Some (Inl e)
      | Some (Inr s) \<Rightarrow>
          driver_loop env fs (Suc k)
            ((add_struct res s)\<lparr>stack_frames :=
               (stack_frames (add_struct res s))(func_addr f \<mapsto> struct_name s)\<rparr>))"

text \<open>\<^verbatim>\<open>get_real_functions\<close>: the stub target on MIPS, then the loop over the functions.\<close>

definition do_not_touch :: "env \<Rightarrow> nat option" where
  "do_not_touch env =
     (if arch_name env = ''MIPS32'' then
        foldl (\<lambda>acc context.
                 foldl (\<lambda>acc (succ, jk). if jk = ''Ijk_Call'' then Some (node_addr succ) else acc)
                   acc (get_successors_and_jumpkind env True context))
          None (get_all_nodes env (entry env))
      else None)"

fun real_functions_loop ::
    "env \<Rightarrow> nat option \<Rightarrow> (nat \<times> func) list \<Rightarrow> func list \<Rightarrow> error + func list" where
  "real_functions_loop env dnt [] out = Inr out"
| "real_functions_loop env dnt ((funcaddr, f) # rest) out =
     (if funcaddr = entry env then real_functions_loop env dnt rest out
      else if Some funcaddr = dnt then real_functions_loop env dnt rest out
      else if is_hooked env funcaddr then real_functions_loop env dnt rest out
      else if \<not> find_segment_containing env funcaddr then real_functions_loop env dnt rest out
      else if \<not> sections_map env ''.text'' \<and>
              find_section_containing env funcaddr \<noteq> Some ''.text''
      then real_functions_loop env dnt rest out
      else if funcaddr \<in> set (plt_values env) then real_functions_loop env dnt rest out
      else if has_unresolved_jumps f then real_functions_loop env dnt rest out
      else case get_any_node env funcaddr of
        None \<Rightarrow> Inl AttributeError
      | Some n \<Rightarrow>
          if simprocedure_name n \<noteq> None
          then real_functions_loop env dnt rest (out @ [f])
          else real_functions_loop env dnt rest (out @ [f]))"

definition get_real_functions :: "env \<Rightarrow> error + func list" where
  "get_real_functions env = real_functions_loop env (do_not_touch env) (cfg_functions env) []"

text \<open>
  \<^verbatim>\<open>StructureAnalysis.__init__\<close>; the CFG is the one of \<open>env\<close>, whether it was passed
  or built by the constructor.
\<close>

definition StructureAnalysis :: "env \<Rightarrow> func list option \<Rightarrow> bool \<Rightarrow> (error + results) option" where
  "StructureAnalysis env functions_list chase_structs =
     (case (case functions_list of None \<Rightarrow> get_real_functions env | Some fl \<Rightarrow> Inr fl) of
        Inl e \<Rightarrow> Some (Inl e)
      | Inr fl \<Rightarrow>
          (case driver_loop env fl 0 \<lparr>structures = Map.empty, stack_frames = Map.empty\<rparr> of
             None \<Rightarrow> None
           | Some (Inl e) \<Rightarrow> Some (Inl e)
           | Some (Inr res) \<Rightarrow>
               if chase_structs then Some (Inl FidgetUnsupportedError) else Some (Inr res)))"

subsection \<open>Concrete nodes and surroundings\<close>

text \<open>
  A 32-bit literal node, as \<^verbatim>\<open>SmartExpression\<close> builds it for the constant
  \<^verbatim>\<open>0x12345678\<close> in statement 3 of the instruction at \<^verbatim>\<open>0x1000\<close>.
\<close>

definition lit32 :: expr where
  "lit32 = Expr False 32 (Ity KI 32) (BVV 305419896 32) (BVS (4096, 3) 32) []
     \<lparr>pointer = None, concrete = True, it = False\<rparr> True (Some 4096)
     [PStr ''statements'', PInt 3, PStr ''data'']"

text \<open>
  A table of operations with two entries, which build the term of a 32-bit addition or
  subtraction and refuse any other number of operands, and its interpretation.
\<close>

definition demo_operations :: "string \<Rightarrow> (bv list \<Rightarrow> error + bv) option" where
  "demo_operations opn =
     (if opn = ''Iop_Add32'' \<or> opn = ''Iop_Sub32''
      then Some (\<lambda>args. if length args = 2 then Inr (Apply opn args 32)
                         else Inl SimOperationError)
      else None)"

definition demo_sem :: "string \<Rightarrow> int list \<Rightarrow> int" where
  "demo_sem opn xs =
     (case xs of
        [x, y] \<Rightarrow> if opn = ''Iop_Add32'' then x + y
                  else if opn = ''Iop_Sub32'' then x - y else 0
      | _ \<Rightarrow> 0)"

text \<open>
  Three targets with no code and an empty CFG: a 32-bit x86 (\<^verbatim>\<open>esp\<close> at offset 24,
  calls push the return address), a 64-bit one, and a 32-bit ARM with its
  \<^verbatim>\<open>itstate\<close> register. The properties below put code into them with record
  updates.
\<close>

definition x86 :: env where
  "x86 = \<lparr>arch_name = ''X86'', arch_bits = 32, sp_offset = 24, bp_offset = 28,
     ip_offset = 68, itstate_offset = 0, call_pushes_ret = True,
     memory_endness = ''Iend_LE'', entry = 0, is_hooked = (\<lambda>a. False),
     loader_memory = (\<lambda>a. None), find_segment_containing = (\<lambda>a. True),
     sections_map = (\<lambda>s. s = ''.text''), find_section_containing = (\<lambda>a. Some ''.text''),
     plt_values = [], lift_block = (\<lambda>a. None), lift_insn = (\<lambda>a. None),
     operations = demo_operations, op_sem = demo_sem,
     binary_data_found = (\<lambda>a v p. True), reversed_repr = (\<lambda>a. 0),
     cfg_functions = [], get_all_nodes = (\<lambda>a. []),
     get_successors_and_jumpkind = (\<lambda>x n. []), get_any_node = (\<lambda>a. None),
     new_struct_name = (\<lambda>k. ''stack_'' @ replicate k (CHR ''x''))\<rparr>"

definition amd64 :: env where
  "amd64 = x86\<lparr>arch_name := ''AMD64'', arch_bits := 64, sp_offset := 48, bp_offset := 56,
     ip_offset := 184\<rparr>"

definition arm :: env where
  "arm = x86\<lparr>arch_name := ''ARMEL'', sp_offset := 60, bp_offset := 52, ip_offset := 68,
     itstate_offset := 392, call_pushes_ret := False\<rparr>"

text \<open>The path of the data of statement \<open>i\<close>.\<close>

definition data_path :: "nat \<Rightarrow> pathelem list" where
  "data_path i = [PStr ''statements'', PInt i, PStr ''data'']"

text \<open>What an evaluation gave, for a statement about its taints only.\<close>

definition result_taints :: "(error + expr) \<times> blockstate \<Rightarrow> error + taint_map" where
  "result_taints r = (case fst r of Inl e \<Rightarrow> Inl e | Inr n \<Rightarrow> Inr (taints n))"

text \<open>The node of the literal \<^verbatim>\<open>0\<close> in statement 2 of the instruction at \<^verbatim>\<open>0x1000\<close>.\<close>

definition zero32 :: expr where
  "zero32 = Expr False 32 (Ity KI 32) (BVV 0 32) (BVS (4096, 2) 32) []
     \<lparr>pointer = None, concrete = True, it = False\<rparr> True (Some 4096) (data_path 2)"

text \<open>
  Two functions on the 32-bit x86, each of one block of one instruction that ends in a
  return: the one at \<^verbatim>\<open>0x1000\<close> has the block given, the one at \<^verbatim>\<open>0x2000\<close>
  does nothing. Lifting one instruction gives the same statements as lifting the block.
\<close>

definition ret_block :: "nat \<Rightarrow> stmt list \<Rightarrow> irsb" where
  "ret_block a ss = \<lparr>statements = Ist_IMark a 0 # ss, jumpkind = ''Ijk_Ret'', tyenv_types = []\<rparr>"

definition fun_1 :: func where
  "fun_1 = \<lparr>func_addr = 4096, func_name = ''first'', has_unresolved_jumps = False\<rparr>"

definition fun_2 :: func where
  "fun_2 = \<lparr>func_addr = 8192, func_name = ''second'', has_unresolved_jumps = False\<rparr>"

definition two_functions :: "stmt list \<Rightarrow> env" where
  "two_functions ss =
     x86\<lparr>lift_block := (\<lambda>a. if a = 4096 then Some (ret_block 4096 ss)
                            else if a = 8192 then Some (ret_block 8192 []) else None),
          lift_insn := (\<lambda>a. if a = 4096 then Some (ret_block 4096 ss)
                            else if a = 8192 then Some (ret_block 8192 []) else None),
          cfg_functions := [(4096, fun_1), (8192, fun_2)]\<rparr>"

text \<open>
  \<^verbatim>\<open>mov esp, eax\<close>: the stack pointer is set from a register the function has not
  written. And a statement of a kind the walker has no branch for.
\<close>

definition mov_esp_eax :: "stmt list" where
  "mov_esp_eax = [Ist_Put 24 (Iex_Get 8 (Ity KI 32))]"

definition llsc :: "stmt list" where
  "llsc = [Ist_Other ''Ist_LLSC'']"

definition no_results :: results where
  "no_results = \<lparr>structures = Map.empty, stack_frames = Map.empty\<rparr>"

text \<open>
  \<^verbatim>\<open>call 0x3000\<close> at \<^verbatim>\<open>0x1000\<close> on the 32-bit x86, as the lifter gives it:
  \<^verbatim>\<open>t0 = Sub32(GET(esp), 0x4); PUT(esp) = t0; STle(t0) = 0x1005\<close>, in a block
  that ends in \<^verbatim>\<open>Ijk_Call\<close>.
\<close>

definition call_stmts :: "stmt list" where
  "call_stmts =
     [Ist_WrTmp 0 (Iex_Op ''Iop_Sub32''
                     [Iex_Get 24 (Ity KI 32), Iex_Const (IRConst 4 (Ity KI 32))] (Ity KI 32)),
      Ist_Put 24 (Iex_RdTmp 0 (Ity KI 32)),
      Ist_Store (Iex_RdTmp 0 (Ity KI 32)) (Iex_Const (IRConst 4101 (Ity KI 32)))]"

definition call_block :: irsb where
  "call_block = \<lparr>statements = Ist_IMark 4096 0 # call_stmts, jumpkind = ''Ijk_Call'',
     tyenv_types = [Ity KI 32]\<rparr>"

definition x86_call :: env where
  "x86_call = x86\<lparr>lift_block := (\<lambda>a. if a = 4096 then Some call_block else None),
                  lift_insn := (\<lambda>a. if a = 4096 then Some call_block else None),
                  cfg_functions := [(4096, fun_1)]\<rparr>"

text \<open>
  The node \<^verbatim>\<open>GET(esp)\<close> builds in the instruction at \<^verbatim>\<open>0x1000\<close>, at the entry
  of the function there.
\<close>

definition entry_sp :: expr where
  "entry_sp = Expr False 32 (Ity KI 32) (BVV 0 32) (BVV 0 32) []
     \<lparr>pointer = Some ''stack_'', concrete = True, it = False\<rparr> False (Some 4096) []"

text \<open>
  The node of the 8-bit literal \<^verbatim>\<open>0x80\<close> in statement 2 of the instruction at
  \<^verbatim>\<open>0xffc\<close>, and a state on the ARM target in which that node has been stored at
  the stack pointer of the function's entry (the memory map of the frame's region holds
  it under the replay value of the address). The state is in an instruction with two
  32-bit temporaries, the first of which holds that stack pointer.
\<close>

definition stored_byte :: expr where
  "stored_byte = Expr False 8 (Ity KI 8) (BVV 128 8) (BVS (4092, 2) 8) []
     \<lparr>pointer = None, concrete = True, it = False\<rparr> True (Some 4092) (data_path 2)"

definition arm_state :: blockstate where
  "arm_state = (initial_state arm ''stack_'' 4096)\<lparr>
     bs_tempstore := Some \<lparr>tyenv = [Ity KI 32, Ity KI 32], storage = [0 \<mapsto> entry_sp]\<rparr>,
     mem_regions := (\<lambda>r. Map.empty)(''stack_'' := [BVV 0 32 \<mapsto> stored_byte])\<rparr>"

text \<open>
  On the 32-bit x86: the node of the 64-bit literal \<^verbatim>\<open>5\<close> in statement 1 of the
  instruction at \<^verbatim>\<open>0x1000\<close>, the state at the entry of a function after that
  literal is written to the register at offset 224, and the node a 128-bit
  \<^verbatim>\<open>GET\<close> of that register then builds: \<^verbatim>\<open>truncate\<close> returns the 64-bit node
  as it is, and the new node takes the size and the type of the \<^verbatim>\<open>GET\<close>. And a
  256-bit constant of ones.
\<close>

definition lit64 :: expr where
  "lit64 = Expr False 64 (Ity KI 64) (BVV 5 64) (BVS (4096, 1) 64) []
     \<lparr>pointer = None, concrete = True, it = False\<rparr> True (Some 4096) (data_path 1)"

definition put_state :: blockstate where
  "put_state = (initial_state x86 ''stack_'' 4096)\<lparr>regs :=
     AList.update 224 lit64 (regs (initial_state x86 ''stack_'' 4096))\<rparr>"

definition wide_get :: expr where
  "wide_get = Expr False 128 (Ity KV 128) (BVV 5 64) (BVS (4096, 1) 64) []
     \<lparr>pointer = None, concrete = True, it = False\<rparr> True (Some 4096) (data_path 1)"

definition ones256 :: expr where
  "ones256 = ConstExpression (BVV (2 ^ 256 - 1) 256) (Ity KV 256) True"

text \<open>The replay value of the node an operation gave, with no symbol in it.\<close>

definition replay_value :: "error + expr \<Rightarrow> error + int" where
  "replay_value r =
     (case r of Inl e \<Rightarrow> Inl e
      | Inr n \<Rightarrow> Inr (bv_eval (\<lambda>f xs. 0) (\<lambda>k. 0) (cleanval n)))"

section \<open>Properties\<close>

subsection \<open>Values\<close>

text \<open>The value of a term lies within its width.\<close>

lemma less_pow_mult: "x < (2::int) ^ s \<Longrightarrow> x < 2 ^ n * 2 ^ s"
proof -
  assume a: "x < (2::int) ^ s"
  have le: "(2::int) ^ s \<le> 2 ^ n * 2 ^ s" by simp
  show ?thesis by (rule order_less_le_trans [OF a le])
qed

lemma bv_eval_range: "0 \<le> bv_eval \<iota> \<sigma> v \<and> bv_eval \<iota> \<sigma> v < 2 ^ bv_size v"
proof (induction v)
  case (Concat a b)
  have "bv_eval \<iota> \<sigma> a * 2 ^ bv_size b + bv_eval \<iota> \<sigma> b < 2 ^ bv_size a * 2 ^ bv_size b"
  proof -
    have "bv_eval \<iota> \<sigma> a + 1 \<le> 2 ^ bv_size a" using Concat by simp
    then have "(bv_eval \<iota> \<sigma> a + 1) * 2 ^ bv_size b \<le> 2 ^ bv_size a * (2 ^ bv_size b :: int)"
      by (rule mult_right_mono) simp
    then show ?thesis using Concat by (simp add: algebra_simps)
  qed
  then show ?case using Concat by (simp add: power_add)
next
  case (SignExt n v)
  let ?x = "bv_eval \<iota> \<sigma> v"
  have le: "(2::int) ^ bv_size v \<le> 2 ^ n * 2 ^ bv_size v" by simp
  have nn: "(0::int) \<le> (2 ^ n - 1) * 2 ^ bv_size v" by simp
  have eq: "?x + (2 ^ n - 1) * 2 ^ bv_size v = ?x - 2 ^ bv_size v + 2 ^ n * (2 ^ bv_size v :: int)"
    by (simp add: algebra_simps)
  have up: "?x + (2 ^ n - 1) * 2 ^ bv_size v < 2 ^ n * (2 ^ bv_size v :: int)"
    unfolding eq using SignExt by linarith
  have lo: "0 \<le> ?x + (2 ^ n - 1) * 2 ^ bv_size v" using SignExt nn by linarith
  have up': "?x < 2 ^ n * (2 ^ bv_size v :: int)"
    by (rule order_less_le_trans [OF _ le]) (use SignExt in simp)
  have sz: "(2::int) ^ bv_size (SignExt n v) = 2 ^ n * 2 ^ bv_size v" by (simp add: power_add)
  show ?case
  proof (cases "0 < bv_size v \<and> 2 ^ (bv_size v - 1) \<le> ?x")
    case True
    then have "bv_eval \<iota> \<sigma> (SignExt n v) = ?x + (2 ^ n - 1) * 2 ^ bv_size v"
      by (simp add: Let_def)
    then show ?thesis unfolding sz using up lo by presburger
  next
    case False
    then have "bv_eval \<iota> \<sigma> (SignExt n v) = ?x" by (auto simp: Let_def)
    then show ?thesis unfolding sz using up' SignExt by presburger
  qed
next
  case (ZeroExt n v)
  have "bv_eval \<iota> \<sigma> v < 2 ^ n * 2 ^ bv_size v" using ZeroExt by (intro less_pow_mult) simp
  then show ?case using ZeroExt by (simp add: power_add)
qed simp_all

lemma extract_concat:
  assumes "bv_size l = w"
  shows "bv_eval \<iota> \<sigma> (Extract (int w - 1) 0 (Concat h l)) = bv_eval \<iota> \<sigma> l"
proof -
  have r: "0 \<le> bv_eval \<iota> \<sigma> l \<and> bv_eval \<iota> \<sigma> l < 2 ^ w" using bv_eval_range[of \<iota> \<sigma> l] assms by simp
  have "(bv_eval \<iota> \<sigma> h * 2 ^ w + bv_eval \<iota> \<sigma> l) mod 2 ^ w = bv_eval \<iota> \<sigma> l"
    using r by simp
  then show ?thesis using assms by simp
qed

subsection \<open>Unfolding the concrete surroundings\<close>

lemmas demo_defs = x86_def demo_operations_def demo_sem_def data_path_def

lemmas node_defs = new_smart_def copy_to_self_def set_taints_def set_vals_def set_deps_def
  set_rootval_def set_type_def ConstExpression_def ConstExpression_default_def
  make_default_value_def no_taints_def Ity_I_def

lemmas state_defs = initial_state_def BlockState_def stackexp_def get_reg_def truncate_expr_def
  startswith_def

subsection \<open>Overwrite, then truncate\<close>

text \<open>
  Claim C2, as amended. Let \<open>e\<close> be a node whose size, the width of whose type and
  the widths of whose two values are all \<open>w\<close>, and \<open>wide\<close> a node whose size is
  larger than \<open>w\<close> and is the width of its type, which is not a float type. Then
  truncating \<open>overwrite e wide\<close> to the type of \<open>e\<close> succeeds, and the node it
  gives has the size and type of \<open>e\<close> and two values equal to those of \<open>e\<close>,
  under every interpretation of the operations and every valuation of the symbols. And
  \<open>truncate\<close> of any node at its own type returns the node itself.
\<close>

theorem overwrite_truncate_roundtrip:
  assumes "esize e = extract_int (etype e)" and "bv_size (cleanval e) = esize e"
    and "bv_size (dirtyval e) = esize e" and "esize e < esize wide"
    and "esize wide = extract_int (etype wide)" and "\<not> has_F (etype wide)"
  shows "(\<exists>t. truncate_expr (overwrite e wide) (etype e) = Inr t \<and>
             esize t = esize e \<and> etype t = etype e \<and>
             bv_eval \<iota> \<sigma> (cleanval t) = bv_eval \<iota> \<sigma> (cleanval e) \<and>
             bv_eval \<iota> \<sigma> (dirtyval t) = bv_eval \<iota> \<sigma> (dirtyval e)) \<and>
         truncate_expr n (etype n) = Inr n"
proof -
  have ne: "etype e \<noteq> etype wide" using assms by auto
  let ?ov = "overwrite e wide"
  let ?t = "Expr False (extract_int (etype e)) (etype e)
              (Extract (int (extract_int (etype e)) - 1) 0 (cleanval ?ov))
              (Extract (int (extract_int (etype e)) - 1) 0 (dirtyval ?ov))
              [?ov] \<lparr>pointer = None, concrete = concrete (taints ?ov), it = False\<rparr>
              False (eaddr ?ov) (epath ?ov)"
  have ov: "etype ?ov = etype wide" "esize ?ov = esize wide" "\<not> is_const ?ov"
    "cleanval ?ov = Concat (Extract (int (esize wide) - 1) (int (esize e)) (cleanval wide)) (cleanval e)"
    "dirtyval ?ov = Concat (Extract (int (esize wide) - 1) (int (esize e)) (dirtyval wide)) (dirtyval e)"
    using assms by (simp_all add: overwrite_def)
  have tr: "truncate_expr ?ov (etype e) = Inr ?t"
    using assms ne ov(1,2,3) by (simp add: truncate_expr_def Let_def)
  have c: "bv_eval \<iota> \<sigma> (cleanval ?t) = bv_eval \<iota> \<sigma> (cleanval e)"
    unfolding expr.sel ov(4) using assms by (intro extract_concat) simp
  have d: "bv_eval \<iota> \<sigma> (dirtyval ?t) = bv_eval \<iota> \<sigma> (dirtyval e)"
    unfolding expr.sel ov(5) using assms by (intro extract_concat) simp
  have "truncate_expr n (etype n) = Inr n" by (simp add: truncate_expr_def)
  then show ?thesis using tr c d assms(1) by (intro conjI exI[of _ ?t]) simp_all
qed

theorem overwrite_truncate_roundtrip_witness:
  "(\<exists>t. truncate_expr (overwrite lit32 (ConstExpression_default (Ity KI 64))) (etype lit32) = Inr t \<and>
        esize t = 32 \<and> etype t = Ity KI 32 \<and>
        bv_eval (\<lambda>f xs. 0) (\<lambda>k. 7) (cleanval t) = 305419896 \<and>
        bv_eval (\<lambda>f xs. 0) (\<lambda>k. 7) (dirtyval t) = 7) \<and>
   truncate_expr lit32 (etype lit32) = Inr lit32"
  using overwrite_truncate_roundtrip [of lit32 "ConstExpression_default (Ity KI 64)"
      "\<lambda>f xs. 0" "\<lambda>k. 7" lit32]
  by (simp add: lit32_def ConstExpression_default_def ConstExpression_def make_default_value_def)

text \<open>
  Claim C2 as stated fails in two ways. For a wide node of a float type,
  \<open>overwrite\<close> gives the result the type of the wide node, and \<open>truncate\<close>
  refuses to coerce a node of a float type (\<^verbatim>\<open>ValueError\<close>). And the width of a
  node need not be the width of its values: on the 32-bit x86, after
  \<^verbatim>\<open>PUT(224) = 0x5:I64\<close>, the node of \<^verbatim>\<open>GET:V128(224)\<close> has size 128 and the
  64-bit values of the literal (\<open>truncate\<close> returns a node as it is when asked for
  more bits than its size). Its replay value is 5; overwriting a 256-bit constant of
  ones with it and truncating back to its type gives a node whose replay value is
  \<open>2 ^ 128 - 2 ^ 64 + 5\<close>.
\<close>

theorem truncate_overwrite_counterexample:
  "truncate_expr (overwrite lit32 (ConstExpression_default (Ity KF 64))) (etype lit32) =
     Inl ValueError \<and>
   interp_stmt x86 ''stack_'' (initial_state x86 ''stack_'' 4096) 4096 1
       (Ist_Put 224 (Iex_Const (IRConst 5 (Ity KI 64)))) = Inr put_state \<and>
   fst (smart_expression x86 put_state (Iex_Get 224 (Ity KV 128)) (Some 4100) (data_path 1)) =
     Inr wide_get \<and>
   esize wide_get = 128 \<and> esize ones256 = 256 \<and> etype ones256 = Ity KV 256 \<and>
   replay_value (Inr wide_get) = Inr 5 \<and>
   replay_value (truncate_expr (overwrite wide_get ones256) (etype wide_get)) =
     Inr 340282366920938463444927863358058659845"
  by (simp add: lit32_def lit64_def put_state_def wide_get_def ones256_def replay_value_def
      truncate_expr_def overwrite_def demo_defs node_defs state_defs const_node_def sym_name_def
      assign_Put_def put_regs_def contains_def sublist_code Let_def update_conv')

subsection \<open>Region taint of an operator node\<close>

text \<open>
  Claim C1 at \<^verbatim>\<open>add(const, ptr)\<close>. When the first operand of an add, and, or or xor
  carries no region taint, the node gets none, whatever the second operand carries:
  the branch for "exactly one operand tainted" gives \<^verbatim>\<open>t1\<close>. On the 32-bit x86,
  at the entry of a function, \<^verbatim>\<open>Add32(0x8, GET(esp))\<close> builds a node without region
  taint, and \<^verbatim>\<open>Add32(GET(esp), 0x8)\<close> one with the region of the frame.
\<close>

theorem add_literal_first_loses_taint:
  "add_taint None t = None \<and>
   result_taints (smart_expression x86 (initial_state x86 ''stack_'' 4096)
        (Iex_Op ''Iop_Add32'' [Iex_Const (IRConst 8 (Ity KI 32)), Iex_Get 24 (Ity KI 32)]
           (Ity KI 32)) (Some 4096) (data_path 1))
     = Inr \<lparr>pointer = None, concrete = True, it = False\<rparr> \<and>
   result_taints (smart_expression x86 (initial_state x86 ''stack_'' 4096)
        (Iex_Op ''Iop_Add32'' [Iex_Get 24 (Ity KI 32), Iex_Const (IRConst 8 (Ity KI 32))]
           (Ity KI 32)) (Some 4096) (data_path 1))
     = Inr \<lparr>pointer = Some ''stack_'', concrete = True, it = False\<rparr>"
  by (simp add: demo_defs node_defs state_defs op_node_def const_node_def sym_name_def
      truthy_def add_taint_def ROUNDING_IROPS_def Let_def result_taints_def)

subsection \<open>Ternary select\<close>

text \<open>
  Claim C6, as amended. The node of an \<^verbatim>\<open>Iex_ITE\<close> is built from the nodes of the
  false arm, the true arm and the condition, evaluated in this order, each from the
  state the one before left (so both arms are always evaluated). It copies the true
  arm when the true arm is region-tainted and the false arm otherwise. Its
  concreteness is the conjunction of the concreteness of the two arms, unless the
  condition carries the predication taint: then it is the concreteness of the arm that
  was copied. Its predication taint is the disjunction of the arms'.
\<close>

theorem ite_taints:
  assumes "smart_expression env bs iffalse a (p @ [PStr ''iffalse'']) = (Inr fe, bs1)"
    and "smart_expression env bs1 iftrue a (p @ [PStr ''iftrue'']) = (Inr te, bs2)"
    and "smart_expression env bs2 cond a (p @ [PStr ''cond'']) = (Inr ce, bs3)"
  shows "\<exists>r. smart_expression env bs (Iex_ITE cond iftrue iffalse ty) a p = (Inr r, bs3) \<and>
     (let chosen = (if truthy (pointer (taints te)) then te else fe) in
        cleanval r = cleanval chosen \<and> dirtyval r = dirtyval chosen \<and>
        deps r = deps chosen \<and> rootval r = rootval chosen \<and>
        eaddr r = eaddr chosen \<and> epath r = epath chosen \<and>
        pointer (taints r) = pointer (taints chosen) \<and>
        concrete (taints r) =
          (if it (taints ce) then concrete (taints chosen)
           else concrete (taints fe) \<and> concrete (taints te)) \<and>
        it (taints r) = (it (taints fe) \<or> it (taints te)))"
  using assms by (simp add: ite_node_def Let_def copy_to_self_def set_taints_def)

theorem ite_taints_witness:
  "\<exists>r. smart_expression arm (initial_state arm ''stack_'' 4096)
          (Iex_ITE (Iex_Get 392 (Ity KI 32)) (Iex_Get 60 (Ity KI 32))
             (Iex_Const (IRConst 0 (Ity KI 32))) (Ity KI 32)) (Some 4096) (data_path 1)
        = (Inr r, initial_state arm ''stack_'' 4096) \<and>
        cleanval r = BVV 0 32 \<and> deps r = [] \<and> \<not> rootval r \<and>
        taints r = \<lparr>pointer = Some ''stack_'', concrete = True, it = False\<rparr>"
  using ite_taints [of arm "initial_state arm ''stack_'' 4096" "Iex_Const (IRConst 0 (Ity KI 32))"
      "Some 4096" "data_path 1"
      "Expr False 32 (Ity KI 32) (BVV 0 32) (BVS (4096, 1) 32) []
         \<lparr>pointer = None, concrete = True, it = False\<rparr> True (Some 4096)
         (data_path 1 @ [PStr ''iffalse''])"
      "initial_state arm ''stack_'' 4096"
      "Iex_Get 60 (Ity KI 32)"
      "Expr False 32 (Ity KI 32) (BVV 0 32) (BVV 0 32) []
         \<lparr>pointer = Some ''stack_'', concrete = True, it = False\<rparr> False (Some 4096) []"
      "initial_state arm ''stack_'' 4096"
      "Iex_Get 392 (Ity KI 32)"
      "Expr False 32 (Ity KI 32) (BVV 0 32) (BVV 0 32) []
         \<lparr>pointer = None, concrete = False, it = True\<rparr> False None []"
      "initial_state arm ''stack_'' 4096" "Ity KI 32"]
  by (simp add: arm_def demo_defs node_defs state_defs const_node_def sym_name_def truthy_def Let_def)

text \<open>
  Claim C6 as stated fails in its last part. On the ARM target the condition
  \<^verbatim>\<open>GET(itstate)\<close> carries the predication taint; with the true arm the literal
  \<^verbatim>\<open>1\<close>, the node is concrete when the false arm is the literal \<^verbatim>\<open>0\<close> and not
  concrete when the false arm is a register never written: the false arm decides the
  concreteness of the node.
\<close>

theorem ite_predicated_arm_counterexample:
  "result_taints (smart_expression arm (initial_state arm ''stack_'' 4096) (Iex_Get 392 (Ity KI 32))
       (Some 4096) (data_path 1 @ [PStr ''cond'']))
     = Inr \<lparr>pointer = None, concrete = False, it = True\<rparr> \<and>
   result_taints (smart_expression arm (initial_state arm ''stack_'' 4096)
       (Iex_ITE (Iex_Get 392 (Ity KI 32)) (Iex_Const (IRConst 1 (Ity KI 32)))
          (Iex_Const (IRConst 0 (Ity KI 32))) (Ity KI 32)) (Some 4096) (data_path 1))
     = Inr \<lparr>pointer = None, concrete = True, it = False\<rparr> \<and>
   result_taints (smart_expression arm (initial_state arm ''stack_'' 4096)
       (Iex_ITE (Iex_Get 392 (Ity KI 32)) (Iex_Const (IRConst 1 (Ity KI 32)))
          (Iex_Get 8 (Ity KI 32)) (Ity KI 32)) (Some 4096) (data_path 1))
     = Inr \<lparr>pointer = None, concrete = False, it = False\<rparr>"
  by (simp add: arm_def demo_defs node_defs state_defs const_node_def sym_name_def truthy_def Let_def
      result_taints_def ite_node_def)

subsection \<open>Copying a block state\<close>

lemma map_of_fold_keep:
  "distinct (map fst xs) \<Longrightarrow>
   map_of (fold (\<lambda>(k, v) r. if P v then AList.update k v r else r) xs init) x =
     (case map_of xs x of
        Some v \<Rightarrow> if P v then Some v else map_of init x
      | None \<Rightarrow> map_of init x)"
proof (induction xs arbitrary: init)
  case Nil
  then show ?case by simp
next
  case (Cons kv xs)
  obtain k v where kv: "kv = (k, v)" by (cases kv)
  have d: "distinct (map fst xs)" and nk: "k \<notin> fst ` set xs" using Cons.prems kv by auto
  have none: "map_of xs k = None" using nk by (simp add: map_of_eq_None_iff)
  show ?case
  proof (cases "x = k")
    case True
    then show ?thesis using Cons.IH [OF d] kv none by (simp add: update_conv')
  next
    case False
    then show ?thesis using Cons.IH [OF d] kv
      by (auto simp: update_conv' split: option.splits)
  qed
qed

text \<open>
  Claim C7, as amended. In the copy of a state (whose register dict has each key
  once), a register holds the value it has in the source when that value carries a
  region taint, and otherwise what the constructor of \<^verbatim>\<open>BlockState\<close> puts there:
  the default value of one of the pre-seeded registers of the architecture, or nothing.
  The tag log and the memory map of the copy are empty, it has no TempStore, and it
  keeps the taint region.
\<close>

theorem copy_keeps_tainted_registers:
  assumes "distinct (map fst (regs s))"
  shows "map_of (regs (copy env s a)) r =
           (case map_of (regs s) r of
              Some v \<Rightarrow> if truthy (pointer (taints v)) then Some v
                        else map_of (regs (BlockState env a (taint_region s))) r
            | None \<Rightarrow> map_of (regs (BlockState env a (taint_region s))) r) \<and>
         (map_of (regs (BlockState env a (taint_region s))) r =
            (if arch_name env = ''AMD64'' \<and> (r = 144 \<or> r = 156)
             then Some (ConstExpression_default (Ity KI 64))
             else if arch_name env \<noteq> ''AMD64'' \<and> arch_name env = ''X86'' \<and> (r = 216 \<or> r = 884)
             then Some (ConstExpression_default (Ity KI 32))
             else if arch_name env \<noteq> ''AMD64'' \<and> arch_name env \<noteq> ''X86'' \<and>
                     startswith (arch_name env) ''ARM'' \<and> r = itstate_offset env
             then Some (set_taints (ConstExpression_default (Ity KI 32))
                          \<lparr>pointer = None, concrete = False, it = True\<rparr>)
             else None)) \<and>
         tags (copy env s a) = [] \<and>
         mem_regions (copy env s a) = (\<lambda>region. Map.empty) \<and>
         bs_tempstore (copy env s a) = None \<and>
         taint_region (copy env s a) = taint_region s \<and>
         bs_addr (copy env s a) = a"
proof -
  have 1: "map_of (regs (copy env s a)) r =
           (case map_of (regs s) r of
              Some v \<Rightarrow> if truthy (pointer (taints v)) then Some v
                        else map_of (regs (BlockState env a (taint_region s))) r
            | None \<Rightarrow> map_of (regs (BlockState env a (taint_region s))) r)"
    using map_of_fold_keep [OF assms, of "\<lambda>v. truthy (pointer (taints v))"
        "regs (BlockState env a (taint_region s))" r]
    by (simp add: copy_def Let_def)
  have 2: "map_of (regs (BlockState env a (taint_region s))) r =
            (if arch_name env = ''AMD64'' \<and> (r = 144 \<or> r = 156)
             then Some (ConstExpression_default (Ity KI 64))
             else if arch_name env \<noteq> ''AMD64'' \<and> arch_name env = ''X86'' \<and> (r = 216 \<or> r = 884)
             then Some (ConstExpression_default (Ity KI 32))
             else if arch_name env \<noteq> ''AMD64'' \<and> arch_name env \<noteq> ''X86'' \<and>
                     startswith (arch_name env) ''ARM'' \<and> r = itstate_offset env
             then Some (set_taints (ConstExpression_default (Ity KI 32))
                          \<lparr>pointer = None, concrete = False, it = True\<rparr>)
             else None)"
    by (simp add: BlockState_def update_conv' ConstExpression_default_def ConstExpression_def)
  have 3: "tags (copy env s a) = [] \<and>
         mem_regions (copy env s a) = (\<lambda>region. Map.empty) \<and>
         bs_tempstore (copy env s a) = None \<and>
         taint_region (copy env s a) = taint_region s \<and>
         bs_addr (copy env s a) = a"
    by (simp add: copy_def Let_def BlockState_def)
  show ?thesis using 1 2 3 by blast
qed

theorem copy_keeps_tainted_registers_witness:
  "distinct (map fst (regs (initial_state amd64 ''stack_'' 4096))) \<and>
   map_of (regs (copy amd64 (initial_state amd64 ''stack_'' 4096) 4200)) 48 =
     Some (stackexp amd64 ''stack_'' 4096) \<and>
   map_of (regs (copy amd64 (initial_state amd64 ''stack_'' 4096) 4200)) 16 = None \<and>
   tags (copy amd64 (initial_state amd64 ''stack_'' 4096) 4200) = []"
proof -
  have d: "distinct (map fst (regs (initial_state amd64 ''stack_'' 4096)))"
    by (simp add: initial_state_def BlockState_def amd64_def x86_def)
  show ?thesis
    using copy_keeps_tainted_registers [OF d, of amd64 4200 48]
      copy_keeps_tainted_registers [OF d, of amd64 4200 16] d
    by (simp add: initial_state_def BlockState_def amd64_def x86_def stackexp_def truthy_def
        update_conv')
qed

text \<open>
  Claim C7 as stated fails on the 64-bit target: register 144 of the state at the
  entry of a function holds a default value without region taint, and the copy has
  register 144 too.
\<close>

theorem copy_preseeded_register_counterexample:
  "map_of (regs (initial_state amd64 ''stack_'' 4096)) 144 =
     Some (ConstExpression_default (Ity KI 64)) \<and>
   pointer (taints (ConstExpression_default (Ity KI 64))) = None \<and>
   map_of (regs (copy amd64 (initial_state amd64 ''stack_'' 4096) 4200)) 144 =
     Some (ConstExpression_default (Ity KI 64))"
  by (simp add: copy_def initial_state_def BlockState_def amd64_def x86_def stackexp_def truthy_def
      ConstExpression_default_def ConstExpression_def Let_def)

subsection \<open>Writing the stack pointer\<close>

text \<open>
  Claim C10. A \<^verbatim>\<open>Put\<close> of a concrete node to the stack-pointer register, in a
  state whose taint region is a stack frame (its name contains \<^verbatim>\<open>stack\<close>), appends
  exactly one tag to the tag log: \<open>ALLOC\<close>, with the patch locations
  \<^verbatim>\<open>make_bindata(0)\<close> of the node. The tag does not depend on the value written: it
  is the same for zero and for any other value.
\<close>

theorem sp_write_appends_one_alloc:
  assumes "contains (taint_region s) ''stack''" and "concrete (taints e)"
  shows "assign env s (Ist_Put (sp_offset env) d) e i =
           Inr (s\<lparr>regs := put_regs env (regs s) (sp_offset env) e,
                  tags := tags s @ [(ALLOC, make_bindata env e 0)]\<rparr>)"
  using assms by (simp add: assign_Put_def Let_def)

theorem sp_write_appends_one_alloc_witness:
  "contains (taint_region (initial_state x86 ''stack_'' 4096)) ''stack'' \<and>
   concrete (taints zero32) \<and> model_value x86 (cleanval zero32) = 0 \<and>
   assign x86 (initial_state x86 ''stack_'' 4096)
       (Ist_Put (sp_offset x86) (Iex_Const (IRConst 0 (Ity KI 32)))) zero32 2 =
     Inr ((initial_state x86 ''stack_'' 4096)\<lparr>
            regs := put_regs x86 (regs (initial_state x86 ''stack_'' 4096)) (sp_offset x86) zero32,
            tags := [(ALLOC, make_bindata x86 zero32 0)]\<rparr>)"
proof -
  have c: "contains (taint_region (initial_state x86 ''stack_'' 4096)) ''stack''"
    by (simp add: initial_state_def BlockState_def contains_def sublist_code)
  have k: "concrete (taints zero32)" by (simp add: zero32_def)
  have z: "model_value x86 (cleanval zero32) = 0" by (simp add: zero32_def model_value_def)
  have t: "tags (initial_state x86 ''stack_'' 4096) = []"
    by (simp add: initial_state_def BlockState_def)
  show ?thesis
    using sp_write_appends_one_alloc [OF c k, of x86 "Iex_Const (IRConst 0 (Ity KI 32))" 2] c k z t
    by simp
qed

subsection \<open>Exceptions in the walk\<close>

lemmas prog_defs = two_functions_def ret_block_def fun_1_def fun_2_def no_results_def

lemmas walk_defs = analyze_stack_def initial_walk_def loop_body_def mark_addrs_def run_insn_def
  load_tempstore_def TempStore_def block_end_def BlockState_end_def access_def
  OK_CONTINUE_JUMPS_def

lemma run_stmts_append:
  "run_stmts env name bs a i (pre @ rest) =
     (case run_stmts env name bs a i pre of
        Inl e \<Rightarrow> Inl e
      | Inr bs1 \<Rightarrow> run_stmts env name bs1 a (i + length pre) rest)"
  by (induction pre arbitrary: bs i) (auto split: sum.splits)

lemma run_stmts_raises:
  assumes "run_stmts env name bs a i pre = Inr bs1"
    and "interp_stmt env name bs1 a (i + length pre) s = Inl e"
  shows "run_stmts env name bs a i (pre @ s # post) = Inl e"
  using assms by (simp add: run_stmts_append)

lemma run_insns_append:
  "run_insns env funcaddr name bs c (ms1 @ ms2) =
     (case run_insns env funcaddr name bs c ms1 of
        Inl e \<Rightarrow> Inl e
      | Inr (bs1, c1) \<Rightarrow> run_insns env funcaddr name bs1 c1 ms2)"
  by (induction ms1 arbitrary: bs c) (auto split: sum.splits)

lemma run_insns_raises:
  assumes "run_insns env funcaddr name bs c ms1 = Inr (bs1, c1)"
    and "a = funcaddr \<or> map_of (cfg_functions env) a = None"
    and "run_insn env name bs1 a = Inl e"
  shows "run_insns env funcaddr name bs c (ms1 @ a # ms2) = Inl e"
  using assms by (auto simp: run_insns_append)

lemma passes_walk_loop:
  "passes n env funcaddr w = Some w' \<Longrightarrow> walk_loop env funcaddr w = walk_loop env funcaddr w'"
proof (induction n arbitrary: w)
  case 0
  then show ?case by simp
next
  case (Suc n)
  from Suc.prems obtain w1 where q: "queue w \<noteq> []" and b: "loop_body env funcaddr w = Inr w1"
    and p: "passes n env funcaddr w1 = Some w'"
    by (auto split: if_splits sum.splits)
  have "walk_loop env funcaddr w = walk_loop env funcaddr w1"
    using q b by (subst walk_loop.simps) simp
  then show ?case using Suc.IH [OF p] by simp
qed

text \<open>
  An exception raised by a statement goes out of the walk: when the loop, after \<open>n\<close>
  passes, takes a block it has not visited from the queue, and the statement \<open>s\<close> of
  one of its instructions raises \<open>e\<close>, the analysis of the function ends with \<open>e\<close>.
\<close>

lemma statement_raises:
  assumes reach: "passes n env funcaddr (initial_walk env name funcaddr) = Some w"
    and q: "queue w = blockstate # q"
    and nh: "bs_addr blockstate \<notin> headcache w"
    and lb: "lift_block env (bs_addr blockstate) = Some block"
    and ma: "mark_addrs block = Inr (ms1 @ a # ms2)"
    and ins: "run_insns env funcaddr (struct_name (frame w)) blockstate (cache w) ms1 = Inr (bsA, cA)"
    and nf: "a = funcaddr \<or> map_of (cfg_functions env) a = None"
    and li: "lift_insn env a = Some insnblock"
    and sk: "skip_imark 0 (statements insnblock) = (j, pre @ s # post)"
    and st: "run_stmts env (struct_name (frame w))
               (load_tempstore bsA (TempStore (tyenv_types insnblock))) a j pre = Inr bsB"
    and fail: "interp_stmt env (struct_name (frame w)) bsB a (j + length pre) s = Inl e"
  shows "analyze_stack env name funcaddr = Some (Inl e)"
proof -
  have i: "run_insn env (struct_name (frame w)) bsA a = Inl e"
    using li sk run_stmts_raises [OF st fail] by (simp add: run_insn_def)
  have b: "loop_body env funcaddr w = Inl e"
    using q nh lb ma run_insns_raises [OF ins nf i] by (simp add: loop_body_def)
  have "walk_loop env funcaddr w = Some (Inl e)"
    using q b by (subst walk_loop.simps) simp
  then show ?thesis using passes_walk_loop [OF reach] by (simp add: analyze_stack_def)
qed

lemma second_function_frame:
  "analyze_stack (two_functions ss) ''stack_x'' 8192 =
     Some (Inr \<lparr>struct_name = ''stack_x'', struct_events = []\<rparr>)"
  by (simp add: walk_defs walk_loop.simps prog_defs demo_defs state_defs node_defs update_conv')

subsection \<open>A stack pointer that is not constant\<close>

text \<open>
  Claim C3. Let the walk over a function, after \<open>n\<close> passes of its loop, take from
  the queue a block it has not visited, and let an instruction of that block hold the
  statement \<^verbatim>\<open>PUT(sp) = d\<close>, reached without an exception. If \<open>d\<close> evaluates to a
  node that is not concrete, in a state whose taint region is a stack frame, then the
  analysis of the function ends with \<^verbatim>\<open>FidgetAnalysisFailure\<close>, and the driver goes
  on with the remaining functions from the results it had: the function adds nothing to
  the result maps.
\<close>

theorem nonconcrete_sp_write_fails_function:
  assumes "passes n env funcaddr (initial_walk env name funcaddr) = Some w"
    and "queue w = blockstate # q"
    and "bs_addr blockstate \<notin> headcache w"
    and "lift_block env (bs_addr blockstate) = Some block"
    and "mark_addrs block = Inr (ms1 @ a # ms2)"
    and "run_insns env funcaddr (struct_name (frame w)) blockstate (cache w) ms1 = Inr (bsA, cA)"
    and "a = funcaddr \<or> map_of (cfg_functions env) a = None"
    and "lift_insn env a = Some insnblock"
    and "skip_imark 0 (statements insnblock) = (j, pre @ Ist_Put (sp_offset env) d # post)"
    and "run_stmts env (struct_name (frame w))
           (load_tempstore bsA (TempStore (tyenv_types insnblock))) a j pre = Inr bsB"
    and "smart_expression env bsB d (Some a) (data_path (j + length pre)) = (Inr e, bsC)"
    and "\<not> concrete (taints e)"
    and "contains (taint_region bsC) ''stack''"
    and "func_addr f = funcaddr" and "new_struct_name env k = name"
  shows "analyze_stack env name funcaddr = Some (Inl FidgetAnalysisFailure) \<and>
         driver_loop env (f # fs) k res = driver_loop env fs (Suc k) res"
proof -
  have "interp_stmt env (struct_name (frame w)) bsB a (j + length pre)
          (Ist_Put (sp_offset env) d) = Inl FidgetAnalysisFailure"
    using assms(11-13) by (simp add: data_path_def assign_Put_def Let_def)
  then have "analyze_stack env name funcaddr = Some (Inl FidgetAnalysisFailure)"
    using assms(1-10) by (rule statement_raises [rotated -1])
  then show ?thesis using assms(14,15) by (simp add: is_analysis_failure_def)
qed

theorem nonconcrete_sp_write_fails_function_witness:
  "analyze_stack (two_functions mov_esp_eax) ''stack_'' 4096 = Some (Inl FidgetAnalysisFailure) \<and>
   driver_loop (two_functions mov_esp_eax) [fun_1, fun_2] 0 no_results =
     driver_loop (two_functions mov_esp_eax) [fun_2] (Suc 0) no_results \<and>
   StructureAnalysis (two_functions mov_esp_eax) (Some [fun_1, fun_2]) False =
     Some (Inr \<lparr>structures =
                  [''stack_x'' \<mapsto> \<lparr>struct_name = ''stack_x'', struct_events = []\<rparr>],
                stack_frames = [8192 \<mapsto> ''stack_x'']\<rparr>)"
proof -
  let ?P = "two_functions mov_esp_eax"
  let ?w = "initial_walk ?P ''stack_'' 4096"
  let ?s = "initial_state ?P ''stack_'' 4096"
  let ?b = "ret_block 4096 mov_esp_eax"
  let ?bsB = "load_tempstore ?s (TempStore (tyenv_types ?b))"
  have 1: "passes 0 ?P 4096 ?w = Some ?w" by simp
  have 2: "queue ?w = ?s # []" by (simp add: initial_walk_def)
  have 3: "bs_addr ?s \<notin> headcache ?w" by (simp add: initial_walk_def)
  have 4: "lift_block ?P (bs_addr ?s) = Some ?b"
    by (simp add: mov_esp_eax_def prog_defs demo_defs state_defs)
  have 5: "mark_addrs ?b = Inr ([] @ 4096 # [])" by (simp add: mark_addrs_def mov_esp_eax_def prog_defs)
  have 6: "run_insns ?P 4096 (struct_name (frame ?w)) ?s (cache ?w) [] = Inr (?s, {})"
    by (simp add: initial_walk_def)
  have 7: "4096 = (4096::nat) \<or> map_of (cfg_functions ?P) 4096 = None" by simp
  have 8: "lift_insn ?P 4096 = Some ?b" by (simp add: mov_esp_eax_def prog_defs demo_defs)
  have 9: "skip_imark 0 (statements ?b) = (Suc 0, [] @ Ist_Put (sp_offset ?P) (Iex_Get 8 (Ity KI 32)) # [])"
    by (simp add: mov_esp_eax_def prog_defs demo_defs)
  have 10: "run_stmts ?P (struct_name (frame ?w)) ?bsB 4096 (Suc 0) [] = Inr ?bsB" by simp
  have "\<exists>e bsC. smart_expression ?P ?bsB (Iex_Get 8 (Ity KI 32)) (Some 4096)
        (data_path (Suc 0 + length ([]::stmt list))) = (Inr e, bsC) \<and>
        \<not> concrete (taints e) \<and> contains (taint_region bsC) ''stack''"
    by (simp add: mov_esp_eax_def prog_defs demo_defs state_defs node_defs load_tempstore_def update_conv'
        contains_def sublist_code Let_def)
  then obtain e bsC where 11: "smart_expression ?P ?bsB (Iex_Get 8 (Ity KI 32)) (Some 4096)
        (data_path (Suc 0 + length ([]::stmt list))) = (Inr e, bsC)"
    and 12: "\<not> concrete (taints e)" and 13: "contains (taint_region bsC) ''stack''"
    by blast
  have 14: "func_addr fun_1 = 4096" by (simp add: fun_1_def)
  have 15: "new_struct_name ?P 0 = ''stack_''" by (simp add: mov_esp_eax_def prog_defs demo_defs)
  have a: "analyze_stack ?P ''stack_'' 4096 = Some (Inl FidgetAnalysisFailure) \<and>
           driver_loop ?P (fun_1 # [fun_2]) 0 no_results = driver_loop ?P [fun_2] (Suc 0) no_results"
    by (rule nonconcrete_sp_write_fails_function [OF 1 2 3 4 5 6 7 8 9 10 11 12 13 14 15])
  have n1: "new_struct_name ?P (Suc 0) = ''stack_x''" by (simp add: mov_esp_eax_def prog_defs demo_defs)
  have d: "driver_loop ?P [fun_2] (Suc 0) no_results =
     Some (Inr \<lparr>structures =
                  [''stack_x'' \<mapsto> \<lparr>struct_name = ''stack_x'', struct_events = []\<rparr>],
                stack_frames = [8192 \<mapsto> ''stack_x'']\<rparr>)"
    using second_function_frame [of mov_esp_eax] n1
    by (simp add: fun_2_def add_struct_def no_results_def)
  have "StructureAnalysis ?P (Some [fun_1, fun_2]) False = driver_loop ?P [fun_1, fun_2] 0 no_results"
    using a d by (simp add: StructureAnalysis_def no_results_def)
  then show ?thesis using a d by simp
qed

subsection \<open>Constructs without a handler\<close>

text \<open>
  Claim C8. A statement of a kind the walker has no branch for, and an expression of a
  kind \<^verbatim>\<open>SmartExpression\<close> has no branch for, raise
  \<^verbatim>\<open>FidgetUnsupportedError\<close>. Let the walk over a function, after \<open>n\<close> passes of
  its loop, take from the queue a block it has not visited, and let a statement of an
  instruction of that block, reached without an exception, raise
  \<^verbatim>\<open>FidgetUnsupportedError\<close>. Then the analysis of the function ends with that
  error, and the driver, whose handler catches it (the class hierarchy is the one the
  spec describes), goes on with the remaining functions from the results it had: the
  function adds nothing to the result maps.
\<close>

theorem unsupported_construct_reaches_driver:
  assumes "passes n env funcaddr (initial_walk env name funcaddr) = Some w"
    and "queue w = blockstate # q"
    and "bs_addr blockstate \<notin> headcache w"
    and "lift_block env (bs_addr blockstate) = Some block"
    and "mark_addrs block = Inr (ms1 @ a # ms2)"
    and "run_insns env funcaddr (struct_name (frame w)) blockstate (cache w) ms1 = Inr (bsA, cA)"
    and "a = funcaddr \<or> map_of (cfg_functions env) a = None"
    and "lift_insn env a = Some insnblock"
    and "skip_imark 0 (statements insnblock) = (j, pre @ s # post)"
    and "run_stmts env (struct_name (frame w))
           (load_tempstore bsA (TempStore (tyenv_types insnblock))) a j pre = Inr bsB"
    and "interp_stmt env (struct_name (frame w)) bsB a (j + length pre) s =
           Inl FidgetUnsupportedError"
    and "func_addr f = funcaddr" and "new_struct_name env k = name"
  shows "interp_stmt env name' bs a' i (Ist_Other tag) = Inl FidgetUnsupportedError \<and>
         smart_expression env bs (Iex_Other tag ty) a'' p = (Inl FidgetUnsupportedError, bs) \<and>
         analyze_stack env name funcaddr = Some (Inl FidgetUnsupportedError) \<and>
         driver_loop env (f # fs) k res = driver_loop env fs (Suc k) res"
proof -
  have "analyze_stack env name funcaddr = Some (Inl FidgetUnsupportedError)"
    using assms(1-11) by (rule statement_raises)
  then show ?thesis using assms(12,13) by (simp add: is_analysis_failure_def)
qed

theorem unsupported_construct_reaches_driver_witness:
  "analyze_stack (two_functions llsc) ''stack_'' 4096 = Some (Inl FidgetUnsupportedError) \<and>
   driver_loop (two_functions llsc) [fun_1, fun_2] 0 no_results =
     driver_loop (two_functions llsc) [fun_2] (Suc 0) no_results \<and>
   StructureAnalysis (two_functions llsc) (Some [fun_1, fun_2]) False =
     Some (Inr \<lparr>structures =
                  [''stack_x'' \<mapsto> \<lparr>struct_name = ''stack_x'', struct_events = []\<rparr>],
                stack_frames = [8192 \<mapsto> ''stack_x'']\<rparr>)"
proof -
  let ?P = "two_functions llsc"
  let ?w = "initial_walk ?P ''stack_'' 4096"
  let ?s = "initial_state ?P ''stack_'' 4096"
  let ?b = "ret_block 4096 llsc"
  let ?bsB = "load_tempstore ?s (TempStore (tyenv_types ?b))"
  have 1: "passes 0 ?P 4096 ?w = Some ?w" by simp
  have 2: "queue ?w = ?s # []" by (simp add: initial_walk_def)
  have 3: "bs_addr ?s \<notin> headcache ?w" by (simp add: initial_walk_def)
  have 4: "lift_block ?P (bs_addr ?s) = Some ?b"
    by (simp add: llsc_def prog_defs demo_defs state_defs)
  have 5: "mark_addrs ?b = Inr ([] @ 4096 # [])" by (simp add: mark_addrs_def llsc_def prog_defs)
  have 6: "run_insns ?P 4096 (struct_name (frame ?w)) ?s (cache ?w) [] = Inr (?s, {})"
    by (simp add: initial_walk_def)
  have 7: "4096 = (4096::nat) \<or> map_of (cfg_functions ?P) 4096 = None" by simp
  have 8: "lift_insn ?P 4096 = Some ?b" by (simp add: llsc_def prog_defs demo_defs)
  have 9: "skip_imark 0 (statements ?b) = (Suc 0, [] @ Ist_Other ''Ist_LLSC'' # [])"
    by (simp add: llsc_def prog_defs demo_defs)
  have 10: "run_stmts ?P (struct_name (frame ?w)) ?bsB 4096 (Suc 0) [] = Inr ?bsB" by simp
  have 11: "interp_stmt ?P (struct_name (frame ?w)) ?bsB 4096 (Suc 0 + length ([]::stmt list))
              (Ist_Other ''Ist_LLSC'') = Inl FidgetUnsupportedError" by simp
  have 12: "func_addr fun_1 = 4096" by (simp add: fun_1_def)
  have 13: "new_struct_name ?P 0 = ''stack_''" by (simp add: llsc_def prog_defs demo_defs)
  have a: "analyze_stack ?P ''stack_'' 4096 = Some (Inl FidgetUnsupportedError) \<and>
           driver_loop ?P (fun_1 # [fun_2]) 0 no_results = driver_loop ?P [fun_2] (Suc 0) no_results"
    using unsupported_construct_reaches_driver [OF 1 2 3 4 5 6 7 8 9 10 11 12 13,
        of "''stack_''" "initial_state x86 ''stack_'' 4096" 4096 1 "''Ist_LLSC''"
        "Ity KI 32" "Some 4096" "[]" "[fun_2]" no_results]
    by simp
  have n1: "new_struct_name ?P (Suc 0) = ''stack_x''" by (simp add: llsc_def prog_defs demo_defs)
  have d: "driver_loop ?P [fun_2] (Suc 0) no_results =
             Some (Inr \<lparr>structures =
                  [''stack_x'' \<mapsto> \<lparr>struct_name = ''stack_x'', struct_events = []\<rparr>],
                stack_frames = [8192 \<mapsto> ''stack_x'']\<rparr>)"
    using second_function_frame [of llsc] n1
    by (simp add: fun_2_def add_struct_def no_results_def)
  have "StructureAnalysis ?P (Some [fun_1, fun_2]) False = driver_loop ?P [fun_1, fun_2] 0 no_results"
    using a d by (simp add: StructureAnalysis_def no_results_def)
  then show ?thesis using a d by simp
qed

subsection \<open>Functions that start at a SimProcedure\<close>

text \<open>
  Claim C9 at a function that passes every other filter and whose head node names a
  SimProcedure: \<^verbatim>\<open>get_real_functions\<close> keeps it. The branch that tests
  \<^verbatim>\<open>simprocedure_name\<close> only logs "Skipping function ..."; it has no
  \<^verbatim>\<open>continue\<close>, unlike the filters before it.
\<close>

theorem simprocedure_head_is_kept:
  "get_real_functions
     (x86\<lparr>cfg_functions := [(4096, fun_1)],
          get_any_node := (\<lambda>a. Some \<lparr>node_addr = a, node_context = 0,
                                      simprocedure_name = Some ''puts''\<rparr>),
          entry := 1024\<rparr>) = Inr [fun_1]"
  by (simp add: get_real_functions_def do_not_touch_def demo_defs fun_1_def)

subsection \<open>Conditional loads\<close>

lemma atom_not_const:
  "is_atom x \<Longrightarrow> fst (smart_expression env bs x a p) = Inr e \<Longrightarrow> \<not> is_const e"
  by (cases x)
     (auto simp: new_smart_def copy_to_self_def const_node_def set_taints_def set_rootval_def
        set_vals_def split: sum.splits if_splits)

lemma atom_state: "is_atom x \<Longrightarrow> snd (smart_expression env bs x a p) = bs"
  by (cases x) (auto split: sum.splits)

lemma atom_eval:
  "is_atom x \<Longrightarrow> fst (smart_expression env bs x a p) = Inr e \<Longrightarrow>
   smart_expression env bs x a p = (Inr e, bs)"
  using atom_state [of x env bs a p] by (cases "smart_expression env bs x a p") simp

lemma bv_eval_ZExtTo: "bv_eval \<iota> \<sigma> (ZExtTo n v) = bv_eval \<iota> \<sigma> v"
  by (simp add: ZExtTo_def)

text \<open>
  Claim C5, for flat IR (address, guard and alternative are atoms: a temporary, a
  register read or a constant). Let the address of a conditional load evaluate to a
  node \<open>ae\<close> tainted with the current region, let \<open>loaded\<close> be what the memory map
  of that region holds under the replay value of \<open>ae\<close>, if it has the type of the
  load, and the default constant of that type otherwise, and let the conversion not
  narrow. Then the statement succeeds, whatever the guard, and the state it leaves
  differs from the one before in exactly two places: one tag, the \<^verbatim>\<open>READ\<close> access
  at \<open>ae\<close>, is appended to the tag log, and the destination temporary holds
  \<open>written\<close>, the node \<open>loaded\<close> with the size and type of the destination and with
  its two values sign-extended if the conversion's name has an \<^verbatim>\<open>S\<close>, zero-extended
  otherwise, and unchanged if the widths agree. Guard and alternative leave no trace
  in the state. The values of \<open>written\<close> are those of \<open>loaded\<close>, with the sign bit
  copied into the new high bits under a sign extension.
\<close>

theorem conditional_load_tags_once:
  assumes ad: "is_atom ad" and gd: "is_atom guard" and al: "is_atom alt"
    and ae: "fst (smart_expression env bs ad (Some a)
               [PStr ''statements'', PInt i, PStr ''addr'']) = Inr ae"
    and scope: "pointer (taints ae) = Some (taint_region bs)"
    and region: "taint_region bs \<noteq> []"
    and loaded: "loaded =
           (case mem_regions bs (taint_region bs) (cleanval ae) of
              None \<Rightarrow> ConstExpression_default ty0
            | Some v \<Rightarrow> if etype v = ty0 then v else ConstExpression_default ty0)"
    and widen: "extract_int ty0 \<le> extract_int ty1"
    and conv: "conv = (\<lambda>v. ZExtTo (extract_int ty1)
           (if extract_int ty1 = extract_int ty0 then v
            else if CHR ''S'' \<in> set cvt then SignExt (extract_int ty1 - extract_int ty0) v
            else ZeroExt (extract_int ty1 - extract_int ty0) v))"
    and written: "written =
           Expr False (extract_int ty1) ty1 (conv (cleanval loaded)) (conv (dirtyval loaded))
             (deps loaded) (taints loaded) (rootval loaded) (eaddr loaded) (epath loaded)"
    and ts: "bs_tempstore bs = Some ts" and dst: "dst < length (tyenv ts)"
    and ty: "tyenv ts ! dst = ty1"
    and after: "bs' = bs\<lparr>tags := tags bs @ [(ACCESS, make_bindata env ae READ)],
                   bs_tempstore := Some (ts\<lparr>storage := (storage ts)(dst \<mapsto> written)\<rparr>)\<rparr>"
    and g: "fst (smart_expression env bs' guard (Some a)
               [PStr ''statements'', PInt i, PStr ''guard'']) = Inr g"
    and l: "fst (smart_expression env bs' alt (Some a)
               [PStr ''statements'', PInt i, PStr ''alt'']) = Inr l"
  shows "interp_stmt env name bs a i (Ist_LoadG ad alt guard dst cvt ty0 ty1) = Inr bs' \<and>
         bv_eval \<iota> \<sigma> (cleanval written) =
           (if extract_int ty1 \<noteq> extract_int ty0 \<and> CHR ''S'' \<in> set cvt \<and>
               0 < bv_size (cleanval loaded) \<and>
               2 ^ (bv_size (cleanval loaded) - 1) \<le> bv_eval \<iota> \<sigma> (cleanval loaded)
            then bv_eval \<iota> \<sigma> (cleanval loaded) +
                 (2 ^ (extract_int ty1 - extract_int ty0) - 1) * 2 ^ bv_size (cleanval loaded)
            else bv_eval \<iota> \<sigma> (cleanval loaded)) \<and>
         bv_eval \<iota> \<sigma> (dirtyval written) =
           (if extract_int ty1 \<noteq> extract_int ty0 \<and> CHR ''S'' \<in> set cvt \<and>
               0 < bv_size (dirtyval loaded) \<and>
               2 ^ (bv_size (dirtyval loaded) - 1) \<le> bv_eval \<iota> \<sigma> (dirtyval loaded)
            then bv_eval \<iota> \<sigma> (dirtyval loaded) +
                 (2 ^ (extract_int ty1 - extract_int ty0) - 1) * 2 ^ bv_size (dirtyval loaded)
            else bv_eval \<iota> \<sigma> (dirtyval loaded))"
proof -
  have 1: "smart_expression env bs ad (Some a) [PStr ''statements'', PInt i, PStr ''addr'']
             = (Inr ae, bs)"
    using atom_eval [OF ad ae] .
  have nc: "\<not> is_const ae" using atom_not_const [OF ad ae] .
  let ?bs2 = "bs\<lparr>tags := tags bs @ [(ACCESS, make_bindata env ae READ)]\<rparr>"
  have 2: "access env bs ae READ = Inr ?bs2" using scope nc by (simp add: access_def)
  have 3: "get_mem env ?bs2 ae ty0 = Inr loaded"
    using scope region loaded by (simp add: get_mem_def truthy_def split: option.splits)
  have d: "int (extract_int ty1) - int (extract_int ty0) \<noteq> 0 \<longleftrightarrow>
             extract_int ty1 \<noteq> extract_int ty0"
    by auto
  have n: "nat (int (extract_int ty1) - int (extract_int ty0)) = extract_int ty1 - extract_int ty0"
    using widen by simp
  let ?cv = "cvt_expression loaded cvt ty0 ty1"
  have w: "set_vals ?cv (ZExtTo (extract_int ty1) (cleanval ?cv))
             (ZExtTo (extract_int ty1) (dirtyval ?cv)) = written"
    unfolding written conv cvt_expression_def Let_def d n by (simp add: set_vals_def)
  have ty1: "etype ?cv = ty1" by (simp add: cvt_expression_def Let_def)
  have 4: "assign_WrTmp ?bs2 dst ?cv = Inr bs'"
    using ts dst ty ty1 after w
    by (simp add: assign_WrTmp_def TempStore_write_def TempStore_size_of_def)
  have 5: "smart_expression env bs' guard (Some a) [PStr ''statements'', PInt i, PStr ''guard'']
             = (Inr g, bs')"
    using atom_eval [OF gd g] .
  have 6: "smart_expression env bs' alt (Some a) [PStr ''statements'', PInt i, PStr ''alt'']
             = (Inr l, bs')"
    using atom_eval [OF al l] .
  have r: "interp_stmt env name bs a i (Ist_LoadG ad alt guard dst cvt ty0 ty1) = Inr bs'"
    using 1 2 3 4 5 6 by simp
  have c: "cleanval written = conv (cleanval loaded)" "dirtyval written = conv (dirtyval loaded)"
    by (simp_all add: written)
  show ?thesis using r unfolding c conv by (simp add: bv_eval_ZExtTo Let_def)
qed

theorem conditional_load_tags_once_witness:
  "interp_stmt arm ''stack_'' arm_state 4096 3
     (Ist_LoadG (Iex_RdTmp 0 (Ity KI 32)) (Iex_Const (IRConst 0 (Ity KI 32)))
        (Iex_Const (IRConst 0 (Ity KI 1))) 1 ''ILGop_8Sto32'' (Ity KI 8) (Ity KI 32)) =
   Inr (arm_state\<lparr>tags := [(ACCESS, make_bindata arm entry_sp READ)],
          bs_tempstore := Some \<lparr>tyenv = [Ity KI 32, Ity KI 32],
            storage = [0 \<mapsto> entry_sp,
                       1 \<mapsto> Expr False 32 (Ity KI 32) (SignExt 24 (BVV 128 8))
                               (SignExt 24 (BVS (4092, 2) 8)) []
                               \<lparr>pointer = None, concrete = True, it = False\<rparr> True
                               (Some 4092) (data_path 2)]\<rparr>\<rparr>) \<and>
   bv_eval (\<lambda>f xs. 0) (\<lambda>k. 0) (cleanval stored_byte) = 128 \<and>
   bv_eval (\<lambda>f xs. 0) (\<lambda>k. 0) (SignExt 24 (BVV 128 8)) = 4294967168"
proof -
  let ?ts = "\<lparr>tyenv = [Ity KI 32, Ity KI 32], storage = [0 \<mapsto> entry_sp]\<rparr>"
  let ?conv = "\<lambda>v. ZExtTo (extract_int (Ity KI 32))
           (if extract_int (Ity KI 32) = extract_int (Ity KI 8) then v
            else if CHR ''S'' \<in> set ''ILGop_8Sto32''
                 then SignExt (extract_int (Ity KI 32) - extract_int (Ity KI 8)) v
            else ZeroExt (extract_int (Ity KI 32) - extract_int (Ity KI 8)) v)"
  let ?written = "Expr False (extract_int (Ity KI 32)) (Ity KI 32)
             (?conv (cleanval stored_byte)) (?conv (dirtyval stored_byte))
             (deps stored_byte) (taints stored_byte) (rootval stored_byte) (eaddr stored_byte)
             (epath stored_byte)"
  let ?bs' = "arm_state\<lparr>tags := tags arm_state @ [(ACCESS, make_bindata arm entry_sp READ)],
                   bs_tempstore := Some (?ts\<lparr>storage := (storage ?ts)(1 \<mapsto> ?written)\<rparr>)\<rparr>"
  have 1: "is_atom (Iex_RdTmp 0 (Ity KI 32))" by simp
  have 2: "is_atom (Iex_Const (IRConst 0 (Ity KI 1)))" by simp
  have 3: "is_atom (Iex_Const (IRConst 0 (Ity KI 32)))" by simp
  have 4: "fst (smart_expression arm arm_state (Iex_RdTmp 0 (Ity KI 32)) (Some 4096)
               [PStr ''statements'', PInt 3, PStr ''addr'']) = Inr entry_sp"
    by (simp add: arm_state_def entry_sp_def get_tmp_def TempStore_read_def node_defs)
  have 5: "pointer (taints entry_sp) = Some (taint_region arm_state)"
    by (simp add: arm_state_def entry_sp_def initial_state_def BlockState_def)
  have 6: "taint_region arm_state \<noteq> []"
    by (simp add: arm_state_def initial_state_def BlockState_def)
  have 7: "stored_byte =
           (case mem_regions arm_state (taint_region arm_state) (cleanval entry_sp) of
              None \<Rightarrow> ConstExpression_default (Ity KI 8)
            | Some v \<Rightarrow> if etype v = Ity KI 8 then v else ConstExpression_default (Ity KI 8))"
    by (simp add: arm_state_def entry_sp_def stored_byte_def initial_state_def BlockState_def)
  have 8: "extract_int (Ity KI 8) \<le> extract_int (Ity KI 32)" by simp
  have 9: "bs_tempstore arm_state = Some ?ts" by (simp add: arm_state_def)
  have 10: "1 < length (tyenv ?ts)" by simp
  have 11: "tyenv ?ts ! 1 = Ity KI 32" by simp
  have 12: "fst (smart_expression arm ?bs' (Iex_Const (IRConst 0 (Ity KI 1))) (Some 4096)
               [PStr ''statements'', PInt 3, PStr ''guard'']) =
             Inr (Expr False 1 (Ity KI 1) (BVV 0 1) (BVS (4096, 3) 1) []
                    \<lparr>pointer = None, concrete = True, it = False\<rparr> True (Some 4096)
                    [PStr ''statements'', PInt 3, PStr ''guard''])"
    by (simp add: const_node_def sym_name_def node_defs)
  have 13: "fst (smart_expression arm ?bs' (Iex_Const (IRConst 0 (Ity KI 32))) (Some 4096)
               [PStr ''statements'', PInt 3, PStr ''alt'']) =
             Inr (Expr False 32 (Ity KI 32) (BVV 0 32) (BVS (4096, 3) 32) []
                    \<lparr>pointer = None, concrete = True, it = False\<rparr> True (Some 4096)
                    [PStr ''statements'', PInt 3, PStr ''alt''])"
    by (simp add: const_node_def sym_name_def node_defs)
  note r = conditional_load_tags_once [OF 1 2 3 4 5 6 7 8 refl refl 9 10 11 refl 12 13,
      of "''stack_''" "\<lambda>f xs. 0" "\<lambda>k. 0"]
  have t: "tags arm_state = []" by (simp add: arm_state_def initial_state_def BlockState_def)
  have v: "?written = Expr False 32 (Ity KI 32) (SignExt 24 (BVV 128 8))
                               (SignExt 24 (BVS (4092, 2) 8)) []
                               \<lparr>pointer = None, concrete = True, it = False\<rparr> True
                               (Some 4092) (data_path 2)"
    by (simp add: stored_byte_def ZExtTo_def)
  show ?thesis using r t unfolding v by (simp add: fun_upd_def stored_byte_def)
qed

subsection \<open>Calls that push a return address\<close>

text \<open>
  Claim C4. Let a block end in a call on an architecture whose calls push the return
  address, and let the stack-pointer register hold, at the end of the block, the
  native-width node of the push: an operator node with two operands, of which \<open>pre\<close>,
  the stack pointer before the call, is the region-tainted one (the first operand, or
  the second when the first carries no region taint). Then the end of the block gives
  the state \<open>bs'\<close>, in which the stack-pointer register holds \<open>pre\<close>, every other
  register holds what it held, the two last tags are gone and the tags before them are
  kept, and the memory map and the TempStore are unchanged; the copies to enqueue are
  made from \<open>bs'\<close>.
\<close>

theorem call_restores_stack_pointer:
  assumes push: "call_pushes_ret env"
    and sp: "map_of (regs bs) (sp_offset env) = Some stack"
    and ty: "etype stack = Ity_I (arch_bits env)"
    and ds: "deps stack = [d0, d1]"
    and tainted: "truthy (pointer (taints pre))"
    and pre: "pre = d0 \<or> (pre = d1 \<and> \<not> truthy (pointer (taints d0)))"
    and after: "bs' = bs\<lparr>regs := AList.update (sp_offset env) pre (regs bs),
                          tags := take (length (tags bs) - 2) (tags bs)\<rparr>"
  shows "block_end env bs ''Ijk_Call'' h c =
           Inr (bs', map (copy env bs') (successor_addrs env (bs_addr bs) h c)) \<and>
         map_of (regs bs') (sp_offset env) = Some pre \<and>
         (\<forall>r. r \<noteq> sp_offset env \<longrightarrow> map_of (regs bs') r = map_of (regs bs) r) \<and>
         tags bs' = butlast (butlast (tags bs)) \<and>
         mem_regions bs' = mem_regions bs \<and> bs_tempstore bs' = bs_tempstore bs"
proof -
  have g: "get_reg env bs (sp_offset env) (Ity_I (arch_bits env)) = (Inr stack, bs)"
    using sp ty by (simp add: get_reg_def truncate_expr_def Ity_I_def)
  have p: "pop_return_address env bs = Inr bs'"
    using g ds tainted pre after by (auto simp: pop_return_address_def)
  have b: "block_end env bs ''Ijk_Call'' h c =
           Inr (bs', map (copy env bs') (successor_addrs env (bs_addr bs) h c))"
    using push p after by (simp add: block_end_def)
  have t: "take (length (tags bs) - 2) (tags bs) = butlast (butlast (tags bs))"
    by (simp add: butlast_conv_take numeral_2_eq_2)
  show ?thesis using b t after by (simp add: update_conv')
qed

lemma call_instruction_state:
  "\<exists>bs stack d1.
     run_insns x86_call 4096 ''stack_'' (initial_state x86_call ''stack_'' 4096) {} [4096] =
       Inr (bs, {4096}) \<and>
     map_of (regs bs) 24 = Some stack \<and> etype stack = Ity_I 32 \<and>
     deps stack = [entry_sp, d1] \<and> map fst (tags bs) = [ALLOC, ACCESS]"
  by (simp add: x86_call_def call_block_def call_stmts_def fun_1_def entry_sp_def demo_defs
      state_defs node_defs walk_defs op_node_def const_node_def sym_name_def sub_taint_def
      truthy_def ROUNDING_IROPS_def Let_def assign_WrTmp_def TempStore_write_def
      TempStore_size_of_def ZExtTo_def assign_Put_def put_regs_def overwrite_def
      assign_Store_def get_tmp_def TempStore_read_def contains_def sublist_code update_conv'
      set_mem_def model_value_def)

theorem call_restores_stack_pointer_witness:
  "\<exists>bs bs'.
     run_insns x86_call 4096 ''stack_'' (initial_state x86_call ''stack_'' 4096) {} [4096] =
       Inr (bs, {4096}) \<and>
     map fst (tags bs) = [ALLOC, ACCESS] \<and>
     block_end x86_call bs ''Ijk_Call'' {4096} {4096} = Inr (bs', []) \<and>
     map_of (regs bs') 24 = Some entry_sp \<and> tags bs' = []"
proof -
  obtain bs stack d1 where
    r: "run_insns x86_call 4096 ''stack_'' (initial_state x86_call ''stack_'' 4096) {} [4096] =
          Inr (bs, {4096})"
    and sp: "map_of (regs bs) (sp_offset x86_call) = Some stack"
    and ty: "etype stack = Ity_I (arch_bits x86_call)"
    and ds: "deps stack = [entry_sp, d1]"
    and tg: "map fst (tags bs) = [ALLOC, ACCESS]"
    using call_instruction_state by (auto simp: x86_call_def x86_def)
  let ?bs' = "bs\<lparr>regs := AList.update (sp_offset x86_call) entry_sp (regs bs),
                  tags := take (length (tags bs) - 2) (tags bs)\<rparr>"
  have push: "call_pushes_ret x86_call" by (simp add: x86_call_def x86_def)
  have tainted: "truthy (pointer (taints entry_sp))" by (simp add: entry_sp_def truthy_def)
  have pre: "entry_sp = entry_sp \<or> (entry_sp = d1 \<and> \<not> truthy (pointer (taints entry_sp)))"
    by simp
  have len: "length (tags bs) = 2" using tg by (metis length_map length_Cons list.size(3) numeral_2_eq_2)
  have no_succ: "successor_addrs x86_call (bs_addr bs) {4096} {4096} = []"
    by (simp add: successor_addrs_def x86_call_def x86_def)
  have spo: "sp_offset x86_call = 24" by (simp add: x86_call_def x86_def)
  show ?thesis
    using call_restores_stack_pointer [OF push sp ty ds tainted pre refl, of "{4096}" "{4096}"]
      r tg len no_succ spo
    by (intro exI [of _ bs] exI [of _ ?bs']) simp
qed

end
